theory Spec2Isabelle
  imports Main "HOL-Library.Word"
begin

section \<open>Values of the JavaScript runtime\<close>

text \<open>
  The authentication core of the desktop client is TypeScript running on Electron.
  A JavaScript string is modelled by the \<^typ>\<open>string\<close> holding its UTF-8 encoding,
  so every well-formed string has exactly one model; a \<open>Buffer\<close> is a list of
  bytes. An exception is a value of type \<open>exn\<close>, and a function that can throw
  returns \<open>exn + 'a\<close> with \<open>Inl\<close> for the exception. The dialog box and the
  console log lines are not part of the model.
\<close>

type_synonym byte = "8 word"

datatype exn = Error string | TypeError | SyntaxError | URIError | RangeError

text \<open>\<open>String(error)\<close>, as used when an exception is appended to a message. The
  engine's own wording of a built-in exception is left out.\<close>

fun errorString :: "exn \<Rightarrow> string" where
  "errorString (Error m) = ''Error: '' @ m"
| "errorString TypeError = ''TypeError''"
| "errorString SyntaxError = ''SyntaxError''"
| "errorString URIError = ''URIError''"
| "errorString RangeError = ''RangeError''"

text \<open>\<open>error instanceof Error ? error.message : ...\<close>\<close>

fun errorMessage :: "exn \<Rightarrow> string" where
  "errorMessage (Error m) = m"
| "errorMessage e = errorString e"

subsection \<open>Code units of a string\<close>

text \<open>The number of bytes a UTF-8 sequence has, read from its first byte; \<open>None\<close>
  for a continuation byte and for a byte with more than four leading one bits.\<close>

definition utf8_sequence_length :: "nat \<Rightarrow> nat option" where
  "utf8_sequence_length b =
     (if b < 128 then Some 1
      else if 192 \<le> b \<and> b < 224 then Some 2
      else if 224 \<le> b \<and> b < 240 then Some 3
      else if 240 \<le> b \<and> b < 248 then Some 4
      else None)"

definition continuation :: "nat \<Rightarrow> bool" where
  "continuation b = (128 \<le> b \<and> b \<le> 191)"

text \<open>The code point one complete UTF-8 sequence encodes; \<open>None\<close> when the bytes are
  not the well-formed encoding of a code point (overlong forms, surrogates and values
  above U+10FFFF are refused).\<close>

fun utf8_scalar :: "nat list \<Rightarrow> nat option" where
  "utf8_scalar [b0] = (if b0 < 128 then Some b0 else None)"
| "utf8_scalar [b0, b1] =
     (if 194 \<le> b0 \<and> b0 \<le> 223 \<and> continuation b1
      then Some ((b0 - 192) * 64 + (b1 - 128)) else None)"
| "utf8_scalar [b0, b1, b2] =
     (if 224 \<le> b0 \<and> b0 \<le> 239 \<and> continuation b1 \<and> continuation b2
         \<and> (b0 = 224 \<longrightarrow> 160 \<le> b1) \<and> (b0 = 237 \<longrightarrow> b1 \<le> 159)
      then Some (((b0 - 224) * 64 + (b1 - 128)) * 64 + (b2 - 128)) else None)"
| "utf8_scalar [b0, b1, b2, b3] =
     (if 240 \<le> b0 \<and> b0 \<le> 244 \<and> continuation b1 \<and> continuation b2 \<and> continuation b3
         \<and> (b0 = 240 \<longrightarrow> 144 \<le> b1) \<and> (b0 = 244 \<longrightarrow> b1 \<le> 143)
      then Some ((((b0 - 240) * 64 + (b1 - 128)) * 64 + (b2 - 128)) * 64 + (b3 - 128))
      else None)"
| "utf8_scalar bs = None"

fun utf8_code_points :: "nat list \<Rightarrow> nat list option" where
  "utf8_code_points [] = Some []"
| "utf8_code_points (b # bs) =
     (case utf8_sequence_length b of
        None \<Rightarrow> None
      | Some n \<Rightarrow>
          (if length bs < n - 1 then None
           else case utf8_scalar (b # take (n - 1) bs) of
                  None \<Rightarrow> None
                | Some cp \<Rightarrow> map_option ((#) cp) (utf8_code_points (drop (n - 1) bs))))"

definition valid_utf8 :: "nat list \<Rightarrow> bool" where
  "valid_utf8 bs = (utf8_code_points bs \<noteq> None)"

fun utf16_units :: "nat list \<Rightarrow> nat list" where
  "utf16_units [] = []"
| "utf16_units (cp # cps) =
     (if cp < 65536 then cp # utf16_units cps
      else (55296 + (cp - 65536) div 1024) # (56320 + (cp - 65536) mod 1024) # utf16_units cps)"

text \<open>The UTF-16 code units of the JavaScript string a \<^typ>\<open>string\<close> stands for: what
  \<open>split('')\<close>, \<open>charCodeAt\<close> and a regular expression without the \<open>u\<close> flag walk
  over. A character list that is not well-formed UTF-8 stands for no JavaScript string;
  its characters are then taken one by one.\<close>

definition codeUnits :: "string \<Rightarrow> nat list" where
  "codeUnits s =
     (case utf8_code_points (map of_char s) of
        Some cps \<Rightarrow> utf16_units cps
      | None \<Rightarrow> map of_char s)"

section \<open>Secret Store\<close>

text \<open>
  What a file of \<open>~/.sailpoint/secure\<close> holds: the output of
  \<open>safeStorage.encryptString\<close> for some value, or bytes that
  \<open>safeStorage.decryptString\<close> refuses. The platform cipher is modelled by this
  round trip only.
\<close>

datatype secret_file = Encrypted string | Undecryptable

text \<open>
  One environment of the registry file, and the registry file itself
  (\<open>~/.sailpoint/config.yaml\<close>, as \<open>load\<close> returns it and \<open>dump\<close> writes it).
  \<open>environments\<close> lists the entries of the JavaScript object in the order of
  \<open>Object.keys\<close>.
\<close>

datatype authtype = oauth | pat

record envConfig =
  tenanturl :: string
  baseurl :: string

record CLIConfig =
  authtype :: authtype
  activeenvironment :: string
  environments :: "(string \<times> envConfig) list"

text \<open>
  The disk and the platform as the authentication code sees them: whether
  \<open>safeStorage.isEncryptionAvailable()\<close> holds, the files of the secure directory by
  path, the registry file (\<open>Inl\<close> of the exception that reading it throws, when it
  cannot be read), the clock read by \<open>new Date()\<close> in milliseconds, and the
  requests handed to \<open>fetch\<close> so far, oldest first. Writing and unlinking a file
  succeed.
\<close>

record request =
  url :: string
  httpMethod :: string
  headers :: "(string \<times> string) list"
  body :: string

record world =
  encryptionAvailable :: bool
  secureFiles :: "string \<rightharpoonup> secret_file"
  configFile :: "exn + CLIConfig"
  clock :: int
  requests :: "request list"

definition getSecureDir :: string where
  "getSecureDir = ''~/.sailpoint/secure''"

definition alphanumeric :: "nat \<Rightarrow> bool" where
  "alphanumeric u = ((48 \<le> u \<and> u \<le> 57) \<or> (65 \<le> u \<and> u \<le> 90) \<or> (97 \<le> u \<and> u \<le> 122))"

text \<open>\<open>s.replace(/[^a-zA-Z0-9]/g, '_')\<close>\<close>

definition replaceNonAlphanumeric :: "string \<Rightarrow> string" where
  "replaceNonAlphanumeric s =
     map (\<lambda>u. if alphanumeric u then char_of u else CHR ''_'') (codeUnits s)"

definition formatSecureFilename :: "string \<Rightarrow> string \<Rightarrow> string" where
  "formatSecureFilename key environment =
     (let safeKey = replaceNonAlphanumeric key;
          safeEnv = replaceNonAlphanumeric environment
      in safeKey @ ''_'' @ safeEnv @ ''.enc'')"

definition buildSecretFilePath :: "string \<Rightarrow> string \<Rightarrow> string" where
  "buildSecretFilePath key environment =
     getSecureDir @ ''/'' @ formatSecureFilename key environment"

fun decryptString :: "secret_file \<Rightarrow> exn + string" where
  "decryptString (Encrypted v) = Inr v"
| "decryptString Undecryptable = Inl (Error ''Error while decrypting the ciphertext'')"

text \<open>The body of the \<open>try\<close> block of \<open>getSecureValue\<close>.\<close>

definition getSecureValue_try :: "world \<Rightarrow> string \<Rightarrow> string \<Rightarrow> exn + string" where
  "getSecureValue_try w key environment =
     (if \<not> encryptionAvailable w then Inl (Error ''Encryption not available'')
      else case secureFiles w (buildSecretFilePath key environment) of
             None \<Rightarrow> Inr ''''
           | Some encryptedData \<Rightarrow> decryptString encryptedData)"

text \<open>\<open>getSecureValue\<close>: the \<open>catch\<close> clause logs the exception and returns \<open>''\<close>.\<close>

definition getSecureValue :: "world \<Rightarrow> string \<Rightarrow> string \<Rightarrow> exn + string" where
  "getSecureValue w key environment =
     (case getSecureValue_try w key environment of
        Inl e \<Rightarrow> Inr ''''
      | Inr v \<Rightarrow> Inr v)"

text \<open>\<open>setSecureValue\<close>: the \<open>catch\<close> clause logs the exception and throws it again.
  The result is the world after the call and \<open>Inl\<close> of the exception thrown, if any.\<close>

definition setSecureValue :: "world \<Rightarrow> string \<Rightarrow> string \<Rightarrow> string \<Rightarrow> world \<times> (exn + unit)" where
  "setSecureValue w key environment v =
     (if \<not> encryptionAvailable w then (w, Inl (Error ''Encryption not available''))
      else (w\<lparr>secureFiles := (secureFiles w)(buildSecretFilePath key environment \<mapsto> Encrypted v)\<rparr>,
            Inr ()))"


section \<open>Environment Registry\<close>

text \<open>\<open>getConfig\<close> throws what reading or parsing the file throws; \<open>setConfig\<close>
  writes the whole file.\<close>

definition getConfig :: "world \<Rightarrow> exn + CLIConfig" where
  "getConfig w = configFile w"

definition setConfig :: "world \<Rightarrow> CLIConfig \<Rightarrow> world" where
  "setConfig w config = w\<lparr>configFile := Inr config\<rparr>"

subsection \<open>Objects keyed by strings\<close>

text \<open>
  A JavaScript object lists its keys with the array indices first, in ascending
  numeric order, and the other keys after them in the order they were added. An array
  index is the canonical decimal string of an integer below \<open>2^32 - 1\<close>.
\<close>

definition decimal :: "string \<Rightarrow> nat" where
  "decimal s = foldl (\<lambda>n c. 10 * n + (of_char c - 48)) 0 s"

definition arrayIndex :: "string \<Rightarrow> nat option" where
  "arrayIndex s =
     (if s \<noteq> [] \<and> list_all (\<lambda>c. 48 \<le> (of_char c :: nat) \<and> (of_char c :: nat) \<le> 57) s
         \<and> (s = ''0'' \<or> hd s \<noteq> CHR ''0'') \<and> decimal s \<le> 4294967294
      then Some (decimal s) else None)"

definition comesBefore :: "nat \<Rightarrow> string \<Rightarrow> bool" where
  "comesBefore i k = (case arrayIndex k of Some j \<Rightarrow> j < i | None \<Rightarrow> False)"

text \<open>\<open>obj[k] = v\<close>\<close>

definition objectSet :: "(string \<times> 'v) list \<Rightarrow> string \<Rightarrow> 'v \<Rightarrow> (string \<times> 'v) list" where
  "objectSet obj k v =
     (if map_of obj k \<noteq> None
      then map (\<lambda>(k', v'). if k' = k then (k', v) else (k', v')) obj
      else case arrayIndex k of
             None \<Rightarrow> obj @ [(k, v)]
           | Some i \<Rightarrow> takeWhile (\<lambda>(k', v'). comesBefore i k') obj @ (k, v)
                        # dropWhile (\<lambda>(k', v'). comesBefore i k') obj)"



subsection \<open>Environment management\<close>

record UpdateEnvironmentRequest =
  environmentName :: string
  tenantUrl :: string
  baseUrl :: string
  authType :: authtype
  clientId :: "string option"
  clientSecret :: "string option"

text \<open>The \<open>{ success, error? }\<close> object the entry points return.\<close>

record outcome =
  success :: bool
  error :: "string option"

definition succeeded :: outcome where
  "succeeded = \<lparr>success = True, error = None\<rparr>"

definition failed :: "string \<Rightarrow> outcome" where
  "failed m = \<lparr>success = False, error = Some m\<rparr>"

text \<open>Whether an optional string is truthy: present and not empty.\<close>

fun truthy :: "string option \<Rightarrow> bool" where
  "truthy None = False"
| "truthy (Some s) = (s \<noteq> [])"

definition updateEnvironment :: "world \<Rightarrow> UpdateEnvironmentRequest \<Rightarrow> world \<times> outcome" where
  "updateEnvironment w configureRequest =
     (let config0 = (case getConfig w of
                       Inr c \<Rightarrow> c
                     | Inl e \<Rightarrow> \<lparr>authtype = oauth, activeenvironment = [], environments = []\<rparr>);
          config1 = config0\<lparr>environments :=
                      objectSet (environments config0) (environmentName configureRequest)
                        \<lparr>tenanturl = tenantUrl configureRequest,
                         baseurl = baseUrl configureRequest\<rparr>\<rparr>;
          config2 = config1\<lparr>authtype := authType configureRequest\<rparr>;
          config = config2\<lparr>activeenvironment := environmentName configureRequest\<rparr>
      in if truthy (clientId configureRequest) \<and> truthy (clientSecret configureRequest)
         then (case setSecureValue w ''environments.pat.clientid''
                      (environmentName configureRequest) (the (clientId configureRequest)) of
                 (w1, Inl e) \<Rightarrow> (w1, failed (errorMessage e))
               | (w1, Inr u) \<Rightarrow>
                   (case setSecureValue w1 ''environments.pat.clientsecret''
                           (environmentName configureRequest)
                           (the (clientSecret configureRequest)) of
                      (w2, Inl e) \<Rightarrow> (w2, failed (errorMessage e))
                    | (w2, Inr u) \<Rightarrow> (setConfig w2 config, succeeded)))
         else (setConfig w config, succeeded))"

definition doesNotExist :: "string \<Rightarrow> string" where
  "doesNotExist name =
     ''Environment '' @ [CHR 0x27] @ name @ [CHR 0x27] @ '' does not exist''"


definition setActiveEnvironment :: "world \<Rightarrow> string \<Rightarrow> world \<times> outcome" where
  "setActiveEnvironment w name =
     (case getConfig w of
        Inl e \<Rightarrow> (w, failed (errorMessage e))
      | Inr config \<Rightarrow>
          if map_of (environments config) name = None
          then (w, failed (doesNotExist name))
          else (setConfig w (config\<lparr>activeenvironment := name\<rparr>), succeeded))"

section \<open>Token Codec\<close>

text \<open>
  A value \<open>JSON.parse\<close> returns. The numbers of a document are integers in the
  model (the \<open>exp\<close> of a token is a number of seconds); the entries of an object are in
  the order of its keys.
\<close>

datatype json =
    JNull
  | JBool bool
  | JNumber int
  | JString string
  | JArray "json list"
  | JObject "(string \<times> json) list"

record response =
  ok :: bool
  status :: nat
  statusText :: string
  responseBody :: string

text \<open>
  The library functions and the remote servers the code calls, taken as parameters:
  \<^item> \<open>base64Decode\<close> is \<open>Buffer.from(s, 'base64')\<close>, \<open>hexDecode\<close> is
    \<open>Buffer.from(s, 'hex')\<close>; neither throws;
  \<^item> \<open>invalidUtf8ToString\<close> is \<open>buf.toString()\<close> for a buffer that is not valid
    UTF-8;
  \<^item> \<open>jsonParse\<close> is \<open>JSON.parse\<close>, \<open>None\<close> when it throws a \<open>SyntaxError\<close>;
    \<open>jsonStringify\<close> is \<open>JSON.stringify\<close>;
  \<^item> \<open>toNumber\<close> is the conversion of a value that is not a number to a number,
    \<open>None\<close> for \<open>NaN\<close>;
  \<^item> \<open>aes256cbc key iv data\<close> is the \<open>aes-256-cbc\<close> decipher without automatic
    padding, \<open>update\<close> followed by \<open>final\<close>;
  \<^item> \<open>toISOString\<close> and \<open>dateParse\<close> are \<open>Date.prototype.toISOString\<close> on a
    valid date and \<open>new Date(string)\<close>, \<open>None\<close> for an invalid date;
  \<^item> \<open>base64Encode\<close> is \<open>Buffer.from(s).toString('base64')\<close>;
  \<^item> \<open>fetch\<close> is what the network answers to a request, \<open>Inl\<close> when the request
    itself fails.
\<close>

record runtime =
  base64Decode :: "string \<Rightarrow> byte list"
  hexDecode :: "string \<Rightarrow> byte list"
  invalidUtf8ToString :: "byte list \<Rightarrow> string"
  jsonParse :: "string \<Rightarrow> json option"
  jsonStringify :: "json \<Rightarrow> string"
  toNumber :: "json \<Rightarrow> int option"
  aes256cbc :: "byte list \<Rightarrow> byte list \<Rightarrow> byte list \<Rightarrow> exn + byte list"
  toISOString :: "int \<Rightarrow> string"
  dateParse :: "string \<Rightarrow> int option"
  base64Encode :: "string \<Rightarrow> string"
  fetch :: "request \<Rightarrow> exn + response"

text \<open>Sequencing of calls that can throw.\<close>

definition andThen :: "exn + 'a \<Rightarrow> ('a \<Rightarrow> exn + 'b) \<Rightarrow> exn + 'b" where
  "andThen m f = (case m of Inl e \<Rightarrow> Inl e | Inr x \<Rightarrow> f x)"

text \<open>\<open>s.split(sep)\<close> for a separator of one character: never an empty array.\<close>

fun split_str :: "char \<Rightarrow> string \<Rightarrow> string list" where
  "split_str sep [] = [[]]"
| "split_str sep (c # cs) =
     (if c = sep then [] # split_str sep cs
      else case split_str sep cs of
             p # ps \<Rightarrow> (c # p) # ps
           | [] \<Rightarrow> [[c]])"

text \<open>\<open>s.replace(/a/g, 'b')\<close> for single characters.\<close>

definition replaceAll :: "char \<Rightarrow> char \<Rightarrow> string \<Rightarrow> string" where
  "replaceAll a b s = map (\<lambda>c. if c = a then b else c) s"

text \<open>\<open>buf.toString()\<close> decodes UTF-8.\<close>

definition bufferToString :: "runtime \<Rightarrow> byte list \<Rightarrow> string" where
  "bufferToString rt buf =
     (if valid_utf8 (map unat buf) then map (\<lambda>b. char_of (unat b)) buf
      else invalidUtf8ToString rt buf)"

definition hexDigit :: "nat \<Rightarrow> char" where
  "hexDigit d = (if d < 10 then char_of (48 + d) else char_of (87 + d))"

text \<open>\<open>n.toString(16)\<close>\<close>

fun toString16 :: "nat \<Rightarrow> string" where
  "toString16 n = (if n < 16 then [hexDigit n] else toString16 (n div 16) @ [hexDigit (n mod 16)])"

declare toString16.simps [simp del]

text \<open>\<open>s.slice(-k)\<close>\<close>

definition sliceLast :: "nat \<Rightarrow> string \<Rightarrow> string" where
  "sliceLast k s = drop (length s - k) s"

text \<open>The function mapped over the characters in \<open>parseJwt\<close>:
  \<open>c => '%' + ('00' + c.charCodeAt(0).toString(16)).slice(-2)\<close>\<close>

definition escapeUnit :: "nat \<Rightarrow> string" where
  "escapeUnit c = CHR ''%'' # sliceLast 2 (''00'' @ toString16 c)"

definition hexValue :: "char \<Rightarrow> nat option" where
  "hexValue c =
     (let u = (of_char c :: nat)
      in if 48 \<le> u \<and> u \<le> 57 then Some (u - 48)
         else if 97 \<le> u \<and> u \<le> 102 then Some (u - 87)
         else if 65 \<le> u \<and> u \<le> 70 then Some (u - 55)
         else None)"

text \<open>The byte a \<open>%XX\<close> escape at the head of a string stands for.\<close>

definition percentByte :: "string \<Rightarrow> nat option" where
  "percentByte s =
     (case s of
        c # h1 # h2 # rest \<Rightarrow>
          (if c = CHR ''%''
           then (case (hexValue h1, hexValue h2) of
                   (Some a, Some b) \<Rightarrow> Some (16 * a + b)
                 | _ \<Rightarrow> None)
           else None)
      | _ \<Rightarrow> None)"

fun percentBytes :: "nat \<Rightarrow> string \<Rightarrow> nat list option" where
  "percentBytes 0 s = Some []"
| "percentBytes (Suc k) s =
     (case percentByte s of
        None \<Rightarrow> None
      | Some b \<Rightarrow> map_option ((#) b) (percentBytes k (drop 3 s)))"

text \<open>
  \<open>decodeURIComponent\<close>: every escape sequence must be the UTF-8 encoding of a code
  point, or a \<open>URIError\<close> is thrown; other characters are copied.
\<close>

fun decodeURIComponent :: "string \<Rightarrow> exn + string" where
  "decodeURIComponent [] = Inr []"
| "decodeURIComponent (c # cs) =
     (if c \<noteq> CHR ''%'' then map_sum id ((#) c) (decodeURIComponent cs)
      else case percentByte (c # cs) of
             None \<Rightarrow> Inl URIError
           | Some b \<Rightarrow>
               (case utf8_sequence_length b of
                  None \<Rightarrow> Inl URIError
                | Some n \<Rightarrow>
                    (case percentBytes (n - 1) (drop 2 cs) of
                       None \<Rightarrow> Inl URIError
                     | Some octets \<Rightarrow>
                         (case utf8_scalar (b # octets) of
                            None \<Rightarrow> Inl URIError
                          | Some cp \<Rightarrow>
                              map_sum id ((@) (map char_of (b # octets)))
                                (decodeURIComponent (drop (2 + 3 * (n - 1)) cs))))))"

text \<open>\<open>parts[i]\<close>: \<open>None\<close> is \<open>undefined\<close>.\<close>

definition at_index :: "'a list \<Rightarrow> nat \<Rightarrow> 'a option" where
  "at_index xs i = (if i < length xs then Some (xs ! i) else None)"

text \<open>The text \<open>parseJwt\<close> hands to \<open>JSON.parse\<close>, from the segment
  \<open>parts[1]\<close>.\<close>

definition jsonPayloadOf :: "runtime \<Rightarrow> string \<Rightarrow> exn + string" where
  "jsonPayloadOf rt base64Url =
     (let base64 = replaceAll CHR ''_'' CHR ''/'' (replaceAll CHR ''-'' CHR ''+'' base64Url);
          decoded = bufferToString rt (base64Decode rt base64);
          escaped = concat (map escapeUnit (codeUnits decoded))
      in decodeURIComponent escaped)"

definition parseJwt :: "runtime \<Rightarrow> string \<Rightarrow> exn + json" where
  "parseJwt rt token =
     (let parts = split_str CHR ''.'' token
      in case at_index parts 1 of
           None \<Rightarrow> Inl TypeError
         | Some base64Url \<Rightarrow>
             andThen (jsonPayloadOf rt base64Url)
               (\<lambda>jsonPayload.
                  case jsonParse rt jsonPayload of
                    None \<Rightarrow> Inl SyntaxError
                  | Some claims \<Rightarrow> Inr claims))"

text \<open>
  \<open>value.key\<close> for the keys read here (\<open>exp\<close>, \<open>access_token\<close>,
  \<open>refresh_token\<close>): a \<open>TypeError\<close> on \<open>null\<close>, the entry of an object, and
  \<open>undefined\<close> (\<open>None\<close>) on every other value.
\<close>

fun getProperty :: "json \<Rightarrow> string \<Rightarrow> exn + json option" where
  "getProperty JNull k = Inl TypeError"
| "getProperty (JObject entries) k = Inr (map_of entries k)"
| "getProperty v k = Inr None"

text \<open>A JavaScript number that is an integer, or \<open>NaN\<close> (\<open>None\<close>).\<close>

type_synonym number = "int option"

text \<open>\<open>x * 1000\<close> for a value read from a JSON document.\<close>

fun times1000 :: "runtime \<Rightarrow> json option \<Rightarrow> number" where
  "times1000 rt None = None"
| "times1000 rt (Some (JNumber n)) = Some (n * 1000)"
| "times1000 rt (Some v) = map_option (\<lambda>n. n * 1000) (toNumber rt v)"

text \<open>
  A \<open>Date\<close> is its time value in milliseconds, \<open>None\<close> for an invalid date.
  \<open>new Date(x)\<close> is invalid for \<open>NaN\<close> and beyond 8.64e15 milliseconds either side
  of the epoch.
\<close>

type_synonym date = "int option"

definition newDate :: "number \<Rightarrow> date" where
  "newDate x =
     (case x of
        None \<Rightarrow> None
      | Some t \<Rightarrow> if \<bar>t\<bar> \<le> 8640000000000000 then Some t else None)"

text \<open>\<open>a < b\<close> and \<open>a <= b\<close> on numbers: false when either is \<open>NaN\<close>.\<close>

fun lessThan :: "number \<Rightarrow> number \<Rightarrow> bool" where
  "lessThan (Some a) (Some b) = (a < b)"
| "lessThan a b = False"

fun lessEqual :: "number \<Rightarrow> number \<Rightarrow> bool" where
  "lessEqual (Some a) (Some b) = (a \<le> b)"
| "lessEqual a b = False"

text \<open>
  \<open>getTokenDetails\<close> returns \<open>{ expiry, ...parsedToken }\<close>: the claims, with the date
  computed from \<open>exp\<close> under the key \<open>expiry\<close> unless the claims have a key
  \<open>expiry\<close> of their own, which then takes its place.
\<close>

datatype expiryValue = DateValue date | ClaimValue json

record TokenDetails =
  expiry :: expiryValue
  claims :: json

fun ownExpiry :: "json \<Rightarrow> json option" where
  "ownExpiry (JObject entries) = map_of entries ''expiry''"
| "ownExpiry v = None"

definition getTokenDetails :: "runtime \<Rightarrow> string \<Rightarrow> exn + TokenDetails" where
  "getTokenDetails rt token =
     andThen (parseJwt rt token)
       (\<lambda>parsedToken.
          andThen (getProperty parsedToken ''exp'')
            (\<lambda>exp.
               Inr \<lparr>expiry = (case ownExpiry parsedToken of
                                None \<Rightarrow> DateValue (newDate (times1000 rt exp))
                              | Some v \<Rightarrow> ClaimValue v),
                    claims = parsedToken\<rparr>))"

text \<open>The number an \<open>expiry\<close> is compared as.\<close>

fun expiryNumber :: "runtime \<Rightarrow> expiryValue \<Rightarrow> number" where
  "expiryNumber rt (DateValue d) = d"
| "expiryNumber rt (ClaimValue (JNumber n)) = Some n"
| "expiryNumber rt (ClaimValue v) = toNumber rt v"


section \<open>Delegated-Auth Flow\<close>

subsection \<open>Decrypting the token payload\<close>

text \<open>The loop of \<open>decryptTokenInfo\<close> that checks the padding bytes from index \<open>i\<close>
  on: it stops with \<open>false\<close> at the first byte that differs from \<open>paddingLen\<close>.\<close>

function validPadding :: "byte list \<Rightarrow> nat \<Rightarrow> nat \<Rightarrow> bool" where
  "validPadding decrypted paddingLen i =
     (if i < length decrypted
      then (if unat (decrypted ! i) \<noteq> paddingLen then False
            else validPadding decrypted paddingLen (i + 1))
      else True)"
  by pat_completeness auto
termination
  by (relation "measure (\<lambda>(decrypted, paddingLen, i). length decrypted - i)") auto

declare validPadding.simps [simp del]

text \<open>The block of \<open>decryptTokenInfo\<close> under the comment "Remove PKCS7 padding".\<close>

definition removePadding :: "byte list \<Rightarrow> byte list" where
  "removePadding decrypted =
     (if length decrypted > 0
      then (let paddingLen = unat (decrypted ! (length decrypted - 1))
            in if paddingLen > 0 \<and> paddingLen \<le> 16 \<and> paddingLen \<le> length decrypted
               then (if validPadding decrypted paddingLen (length decrypted - paddingLen)
                     then take (length decrypted - paddingLen) decrypted
                     else decrypted)
               else decrypted)
      else decrypted)"

definition decryptTokenInfo :: "runtime \<Rightarrow> string \<Rightarrow> string \<Rightarrow> exn + string" where
  "decryptTokenInfo rt encryptedToken encryptionKey =
     (let parts = split_str CHR '':'' encryptedToken
      in if length parts \<noteq> 2 then Inl (Error ''invalid encrypted token format'')
         else (let iv = hexDecode rt (parts ! 0);
                   encryptedData = hexDecode rt (parts ! 1);
                   key = hexDecode rt encryptionKey
               in andThen (aes256cbc rt key iv encryptedData)
                    (\<lambda>decrypted. Inr (bufferToString rt (removePadding decrypted)))))"

subsection \<open>Stored tokens\<close>

record TokenSet =
  accessToken :: string
  accessExpiry :: date
  refreshToken :: "string option"
  refreshExpiry :: "date option"

definition getStoredOAuthTokens :: "runtime \<Rightarrow> world \<Rightarrow> string \<Rightarrow> exn + TokenSet option" where
  "getStoredOAuthTokens rt w environment =
     andThen (getSecureValue w ''environments.oauth.accesstoken'' environment) (\<lambda>accessToken'.
     andThen (getSecureValue w ''environments.oauth.expiry'' environment) (\<lambda>accessExpiry'.
     andThen (getSecureValue w ''environments.oauth.refreshtoken'' environment) (\<lambda>refreshToken'.
     andThen (getSecureValue w ''environments.oauth.refreshexpiry'' environment) (\<lambda>refreshExpiry'.
       if accessToken' = [] \<or> accessExpiry' = [] \<or> refreshToken' = [] \<or> refreshExpiry' = []
       then Inr None
       else Inr (Some \<lparr>accessToken = accessToken',
                       accessExpiry = dateParse rt accessExpiry',
                       refreshToken = Some refreshToken',
                       refreshExpiry = Some (dateParse rt refreshExpiry')\<rparr>)))))"

text \<open>Sequencing of calls that change the disk and can throw.\<close>

definition andThenW ::
  "world \<times> (exn + 'a) \<Rightarrow> (world \<Rightarrow> 'a \<Rightarrow> world \<times> (exn + 'b)) \<Rightarrow> world \<times> (exn + 'b)" where
  "andThenW m f = (case m of (w, Inl e) \<Rightarrow> (w, Inl e) | (w, Inr x) \<Rightarrow> f w x)"

text \<open>\<open>d.toISOString()\<close> throws a \<open>RangeError\<close> on an invalid date.\<close>

definition dateISO :: "runtime \<Rightarrow> date \<Rightarrow> exn + string" where
  "dateISO rt d = (case d of None \<Rightarrow> Inl RangeError | Some t \<Rightarrow> Inr (toISOString rt t))"

definition storeOAuthTokens :: "runtime \<Rightarrow> world \<Rightarrow> string \<Rightarrow> TokenSet \<Rightarrow> world \<times> (exn + unit)" where
  "storeOAuthTokens rt w environment tokenSet =
     (if \<not> truthy (refreshToken tokenSet) \<or> refreshExpiry tokenSet = None
      then (w, Inl (Error ''Invalid token set, missing refresh token or expiry''))
      else
        andThenW (setSecureValue w ''environments.oauth.accesstoken'' environment
                    (accessToken tokenSet)) (\<lambda>w1 u.
        andThenW (w1, dateISO rt (accessExpiry tokenSet)) (\<lambda>w1 iso.
        andThenW (setSecureValue w1 ''environments.oauth.expiry'' environment iso) (\<lambda>w2 u.
        andThenW (setSecureValue w2 ''environments.oauth.refreshtoken'' environment
                    (the (refreshToken tokenSet))) (\<lambda>w3 u.
        andThenW (w3, dateISO rt (the (refreshExpiry tokenSet))) (\<lambda>w3 iso.
          setSecureValue w3 ''environments.oauth.refreshexpiry'' environment iso))))))"

subsection \<open>Validation\<close>

record TokenValidation =
  isValid :: bool
  needsRefresh :: bool
  tokenDetails :: "TokenDetails option"

text \<open>The body of the \<open>try\<close> block of \<open>validateOAuthTokens\<close>.\<close>

definition validateOAuthTokens_try :: "runtime \<Rightarrow> world \<Rightarrow> string \<Rightarrow> exn + TokenValidation" where
  "validateOAuthTokens_try rt w environment =
     andThen (getStoredOAuthTokens rt w environment) (\<lambda>stored.
       case stored of
         None \<Rightarrow> Inr \<lparr>isValid = False, needsRefresh = False, tokenDetails = None\<rparr>
       | Some storedTokens \<Rightarrow>
           if \<not> truthy (refreshToken storedTokens) \<or> refreshExpiry storedTokens = None
           then Inr \<lparr>isValid = False, needsRefresh = False, tokenDetails = None\<rparr>
           else
             (let now = Some (clock w)
              in andThen (getTokenDetails rt (the (refreshToken storedTokens)))
                   (\<lambda>refreshTokenDetails.
                if lessThan (expiryNumber rt (expiry refreshTokenDetails)) now
                then Inr \<lparr>isValid = False, needsRefresh = False,
                          tokenDetails = Some refreshTokenDetails\<rparr>
                else
                  (let fiveMinutesFromNow = newDate (Some (clock w + 5 * 60 * 1000))
                   in andThen (getTokenDetails rt (accessToken storedTokens))
                        (\<lambda>accessTokenDetails.
                     if lessEqual (expiryNumber rt (expiry accessTokenDetails))
                          fiveMinutesFromNow
                     then Inr \<lparr>isValid = False, needsRefresh = True,
                               tokenDetails = Some accessTokenDetails\<rparr>
                     else Inr \<lparr>isValid = True, needsRefresh = False,
                               tokenDetails = Some accessTokenDetails\<rparr>)))))"

text \<open>\<open>validateOAuthTokens\<close>: the \<open>catch\<close> clause reports an invalid session.\<close>

definition validateOAuthTokens :: "runtime \<Rightarrow> world \<Rightarrow> string \<Rightarrow> TokenValidation" where
  "validateOAuthTokens rt w environment =
     (case validateOAuthTokens_try rt w environment of
        Inl e \<Rightarrow> \<lparr>isValid = False, needsRefresh = False, tokenDetails = None\<rparr>
      | Inr v \<Rightarrow> v)"

subsection \<open>Refresh\<close>


text \<open>A number in a template string.\<close>

fun showNat :: "nat \<Rightarrow> string" where
  "showNat n = (if n < 10 then [char_of (48 + n)] else showNat (n div 10) @ [char_of (48 + n mod 10)])"

declare showNat.simps [simp del]


text \<open>\<open>parseJwt(v)\<close> for a value read from a JSON document: only a string has a
  \<open>split\<close> method.\<close>

fun parseJwtValue :: "runtime \<Rightarrow> json option \<Rightarrow> exn + json" where
  "parseJwtValue rt (Some (JString token)) = parseJwt rt token"
| "parseJwtValue rt v = Inl TypeError"

text \<open>\<open>new Date(parseJwt(v).exp * 1000)\<close>\<close>

definition expiryOfToken :: "runtime \<Rightarrow> json option \<Rightarrow> exn + date" where
  "expiryOfToken rt v =
     andThen (parseJwtValue rt v) (\<lambda>tokenClaims.
     andThen (getProperty tokenClaims ''exp'') (\<lambda>exp.
       Inr (newDate (times1000 rt exp))))"

fun stringOf :: "json option \<Rightarrow> string" where
  "stringOf (Some (JString s)) = s"
| "stringOf v = []"

definition send :: "runtime \<Rightarrow> world \<Rightarrow> request \<Rightarrow> world \<times> (exn + response)" where
  "send rt w r = (w\<lparr>requests := requests w @ [r]\<rparr>, fetch rt r)"


section \<open>Service-Credential Flow\<close>

record PATTokens =
  patAccessToken :: string
  patAccessExpiry :: date
  patClientId :: string
  patClientSecret :: string

definition storePATTokens :: "runtime \<Rightarrow> world \<Rightarrow> string \<Rightarrow> string \<Rightarrow> date \<Rightarrow> world \<times> (exn + unit)" where
  "storePATTokens rt w environment accessToken' accessExpiry' =
     andThenW (setSecureValue w ''environments.pat.accesstoken'' environment accessToken')
       (\<lambda>w1 u.
     andThenW (w1, dateISO rt accessExpiry') (\<lambda>w1 iso.
       setSecureValue w1 ''environments.pat.expiry'' environment iso))"

definition getStoredPATTokens :: "runtime \<Rightarrow> world \<Rightarrow> string \<Rightarrow> exn + PATTokens option" where
  "getStoredPATTokens rt w environment =
     andThen (getSecureValue w ''environments.pat.accesstoken'' environment) (\<lambda>accessToken'.
     andThen (getSecureValue w ''environments.pat.expiry'' environment) (\<lambda>accessExpiry'.
     andThen (getSecureValue w ''environments.pat.clientid'' environment) (\<lambda>clientId'.
     andThen (getSecureValue w ''environments.pat.clientsecret'' environment) (\<lambda>clientSecret'.
       if clientId' = [] \<or> clientSecret' = [] then Inr None
       else Inr (Some \<lparr>patAccessToken = accessToken',
                       patAccessExpiry = dateParse rt accessExpiry',
                       patClientId = clientId',
                       patClientSecret = clientSecret'\<rparr>)))))"

text \<open>The request \<open>refreshPATToken\<close> hands to \<open>fetch\<close>.\<close>

definition patTokenRequest :: "runtime \<Rightarrow> envConfig \<Rightarrow> PATTokens \<Rightarrow> request" where
  "patTokenRequest rt envConfig storedTokens =
     (let apiUrl = baseurl envConfig;
          tokenUrl = apiUrl @ ''/oauth/token'';
          authHeader = base64Encode rt
                         (patClientId storedTokens @ '':'' @ patClientSecret storedTokens)
      in \<lparr>url = tokenUrl, httpMethod = ''POST'',
          headers = [(''Content-Type'', ''application/x-www-form-urlencoded''),
                     (''Authorization'', ''Basic '' @ authHeader)],
          body = ''grant_type=client_credentials''\<rparr>)"

definition refreshPATToken :: "runtime \<Rightarrow> world \<Rightarrow> string \<Rightarrow> world \<times> (exn + unit)" where
  "refreshPATToken rt w environment =
     andThenW (w, getStoredPATTokens rt w environment) (\<lambda>w stored.
       case stored of
         None \<Rightarrow> (w, Inl (Error ''No stored PAT tokens found for environment''))
       | Some storedTokens \<Rightarrow>
     andThenW (w, getConfig w) (\<lambda>w config.
       case map_of (environments config) environment of
         None \<Rightarrow> (w, Inl (Error ''Environment configuration not found''))
       | Some envConfig \<Rightarrow>
     andThenW (send rt w (patTokenRequest rt envConfig storedTokens)) (\<lambda>w response.
       if \<not> ok response
       then (w, Inl (Error (''Token refresh failed: '' @ showNat (status response) @ '' ''
                             @ statusText response)))
       else
         (case jsonParse rt (responseBody response) of
            None \<Rightarrow> (w, Inl SyntaxError)
          | Some tokenData \<Rightarrow>
     andThenW (w, getProperty tokenData ''access_token'') (\<lambda>w access_token.
     andThenW (w, expiryOfToken rt access_token) (\<lambda>w expiry'.
       storePATTokens rt w environment (stringOf access_token) expiry'))))))"

section \<open>Session Manager\<close>




section \<open>Example data\<close>

text \<open>
  Concrete tokens, a runtime and disks on which the functions above are evaluated
  below. The tokens have the header \<open>{"alg":"HS256"}\<close>, a payload \<open>{"exp":N}\<close> and the
  signature segment \<open>c2ln\<close>. The example runtime answers the library calls made on
  these inputs as Node does (the base64 and JSON texts of the payloads, the ISO form of
  the dates); its answers to other inputs are arbitrary.
\<close>

definition bytesOf :: "string \<Rightarrow> byte list" where
  "bytesOf s = map (\<lambda>c. of_nat (of_char c)) s"

definition quoted :: "string \<Rightarrow> string" where
  "quoted s = [CHR 0x22] @ s @ [CHR 0x22]"

definition expText :: "string \<Rightarrow> string" where
  "expText seconds = ''{'' @ quoted ''exp'' @ '':'' @ seconds @ ''}''"

definition expClaims :: "int \<Rightarrow> json" where
  "expClaims seconds = JObject [(''exp'', JNumber seconds)]"

definition token2020 :: string where
  "token2020 = ''eyJhbGciOiJIUzI1NiJ9.eyJleHAiOjE2MDAwMDAwMDB9.c2ln''"

definition token2023 :: string where
  "token2023 = ''eyJhbGciOiJIUzI1NiJ9.eyJleHAiOjE3MDAwMDAxMDB9.c2ln''"

definition token2023later :: string where
  "token2023later = ''eyJhbGciOiJIUzI1NiJ9.eyJleHAiOjE3MDAwMDM2MDB9.c2ln''"

definition token2030 :: string where
  "token2030 = ''eyJhbGciOiJIUzI1NiJ9.eyJleHAiOjE5MDAwMDAwMDB9.c2ln''"

definition tokenResponseText :: string where
  "tokenResponseText = ''{'' @ quoted ''access_token'' @ '':'' @ quoted token2023later @ ''}''"

definition paddedPlaintext :: "byte list" where
  "paddedPlaintext =
     bytesOf ''{}'' @ [14, 14, 14, 14, 14, 14, 14, 14, 14, 14, 14, 14, 14, 14]"

definition exampleRuntime :: runtime where
  "exampleRuntime =
     \<lparr>base64Decode =
        (\<lambda>s. case map_of [(''eyJleHAiOjE2MDAwMDAwMDB9'', expText ''1600000000''),
                          (''eyJleHAiOjE3MDAwMDAxMDB9'', expText ''1700000100''),
                          (''eyJleHAiOjE3MDAwMDM2MDB9'', expText ''1700003600''),
                          (''eyJleHAiOjE5MDAwMDAwMDB9'', expText ''1900000000'')] s of
               Some text \<Rightarrow> bytesOf text
             | None \<Rightarrow> []),
      hexDecode = (\<lambda>s. if s = ''0a0b'' then [10, 11] else []),
      invalidUtf8ToString = (\<lambda>buf. []),
      jsonParse =
        map_of [(expText ''1600000000'', expClaims 1600000000),
                (expText ''1700000100'', expClaims 1700000100),
                (expText ''1700003600'', expClaims 1700003600),
                (expText ''1900000000'', expClaims 1900000000),
                (tokenResponseText, JObject [(''access_token'', JString token2023later)])],
      jsonStringify = (\<lambda>v. []),
      toNumber = (\<lambda>v. None),
      aes256cbc = (\<lambda>key iv encryptedData.
                     if encryptedData = [10, 11] then Inr paddedPlaintext
                     else Inl (Error ''wrong final block length'')),
      toISOString =
        (\<lambda>t. case map_of [(1600000000000, ''2020-09-13T12:26:40.000Z''),
                          (1700000100000, ''2023-11-14T22:15:00.000Z''),
                          (1700003600000, ''2023-11-14T23:13:20.000Z''),
                          (1900000000000, ''2030-03-17T17:46:40.000Z'')] t of
               Some s \<Rightarrow> s
             | None \<Rightarrow> []),
      dateParse =
        map_of [(''2020-09-13T12:26:40.000Z'', 1600000000000),
                (''2023-11-14T22:15:00.000Z'', 1700000100000),
                (''2023-11-14T23:13:20.000Z'', 1700003600000),
                (''2030-03-17T17:46:40.000Z'', 1900000000000)],
      base64Encode = (\<lambda>s. if s = ''abc:xyz'' then ''YWJjOnh5eg=='' else []),
      fetch =
        (\<lambda>r. if url r = ''https://prod.api.identitynow.com/oauth/token''
             then Inr \<lparr>ok = True, status = 200, statusText = ''OK'',
                       responseBody = tokenResponseText\<rparr>
             else if url r = ''https://dev.api.identitynow.com/oauth/token''
             then Inr \<lparr>ok = False, status = 401, statusText = ''Unauthorized'',
                       responseBody = []\<rparr>
             else Inl TypeError)\<rparr>"

definition exampleConfig :: CLIConfig where
  "exampleConfig =
     \<lparr>authtype = oauth, activeenvironment = ''test'',
      environments =
        [(''dev'', \<lparr>tenanturl = ''https://dev.identitynow.com'',
                    baseurl = ''https://dev.api.identitynow.com''\<rparr>),
         (''prod'', \<lparr>tenanturl = ''https://prod.identitynow.com'',
                     baseurl = ''https://prod.api.identitynow.com''\<rparr>),
         (''test'', \<lparr>tenanturl = ''https://test.identitynow.com'',
                     baseurl = ''https://test.api.identitynow.com''\<rparr>)]\<rparr>"

text \<open>A disk with the registry and no secrets, at 2023-11-14T22:13:20Z.\<close>

definition exampleWorld :: world where
  "exampleWorld =
     \<lparr>encryptionAvailable = True, secureFiles = Map.empty,
      configFile = Inr exampleConfig, clock = 1700000000000, requests = []\<rparr>"




text \<open>The same disk after the operator has switched \<open>prod\<close> to the service-credential
  flow with the credential pair \<open>abc\<close>, \<open>xyz\<close>.\<close>

definition patRequest :: UpdateEnvironmentRequest where
  "patRequest =
     \<lparr>environmentName = ''prod'', tenantUrl = ''https://prod.identitynow.com'',
      baseUrl = ''https://prod.api.identitynow.com'', authType = pat,
      clientId = Some ''abc'', clientSecret = Some ''xyz''\<rparr>"


text \<open>A delegated token set whose access token expires 100 seconds after the clock of
  the example disk and whose refresh token expires in 2030, stored for \<open>prod\<close>.\<close>

definition expiringTokenSet :: TokenSet where
  "expiringTokenSet =
     \<lparr>accessToken = token2023, accessExpiry = Some 1700000100000,
      refreshToken = Some token2030, refreshExpiry = Some (Some 1900000000000)\<rparr>"

definition expiringWorld :: world where
  "expiringWorld = fst (storeOAuthTokens exampleRuntime exampleWorld ''prod'' expiringTokenSet)"

text \<open>A credential pair stored for \<open>dev\<close>, whose token endpoint answers 401.\<close>

definition devPatWorld :: world where
  "devPatWorld =
     fst (updateEnvironment exampleWorld
            \<lparr>environmentName = ''dev'', tenantUrl = ''https://dev.identitynow.com'',
             baseUrl = ''https://dev.api.identitynow.com'', authType = pat,
             clientId = Some ''abc'', clientSecret = Some ''xyz''\<rparr>)"

text \<open>A secret file that the platform cannot decrypt.\<close>

definition corruptWorld :: world where
  "corruptWorld =
     exampleWorld\<lparr>secureFiles :=
       [buildSecretFilePath ''environments.pat.clientid'' ''prod'' \<mapsto> Undecryptable]\<rparr>"

section \<open>Properties\<close>

subsection \<open>Strings and paths\<close>

lemma utf8_code_points_ascii:
  "list_all (\<lambda>b. b < 128) bs \<Longrightarrow> utf8_code_points bs = Some bs"
  by (induction bs) (simp_all add: utf8_sequence_length_def)

lemma utf16_units_bmp:
  "list_all (\<lambda>b. b < 65536) cps \<Longrightarrow> utf16_units cps = cps"
  by (induction cps) simp_all

lemma codeUnits_ascii:
  assumes "list_all (\<lambda>c. (of_char c :: nat) < 128) s"
  shows "codeUnits s = map of_char s"
proof -
  have a: "list_all (\<lambda>b. b < 128) (map of_char s :: nat list)"
    using assms by (simp add: list_all_iff)
  then have "list_all (\<lambda>b. b < 65536) (map of_char s :: nat list)"
    by (auto simp: list_all_iff)
  with a show ?thesis
    by (simp add: codeUnits_def utf8_code_points_ascii utf16_units_bmp)
qed

lemma replaceNonAlphanumeric_ascii:
  assumes "list_all (\<lambda>c. (of_char c :: nat) < 128) s"
  shows "replaceNonAlphanumeric s =
           map (\<lambda>c. if alphanumeric (of_char c) then c else CHR ''_'') s"
  by (simp add: replaceNonAlphanumeric_def codeUnits_ascii [OF assms] comp_def)

lemma safe_keys:
  "replaceNonAlphanumeric ''environments.pat.clientid'' = ''environments_pat_clientid''"
  "replaceNonAlphanumeric ''environments.pat.clientsecret'' = ''environments_pat_clientsecret''"
  "replaceNonAlphanumeric ''environments.pat.accesstoken'' = ''environments_pat_accesstoken''"
  "replaceNonAlphanumeric ''environments.pat.expiry'' = ''environments_pat_expiry''"
  "replaceNonAlphanumeric ''environments.oauth.accesstoken'' = ''environments_oauth_accesstoken''"
  "replaceNonAlphanumeric ''environments.oauth.expiry'' = ''environments_oauth_expiry''"
  "replaceNonAlphanumeric ''environments.oauth.refreshtoken'' = ''environments_oauth_refreshtoken''"
  "replaceNonAlphanumeric ''environments.oauth.refreshexpiry'' = ''environments_oauth_refreshexpiry''"
  by (simp_all add: replaceNonAlphanumeric_ascii alphanumeric_def)

text \<open>Two keys of one environment share a file only if their safe forms agree.\<close>

lemma path_eq_iff:
  "buildSecretFilePath k1 e = buildSecretFilePath k2 e
     \<longleftrightarrow> replaceNonAlphanumeric k1 = replaceNonAlphanumeric k2"
  by (simp add: buildSecretFilePath_def formatSecureFilename_def Let_def)

subsection \<open>Secret Store\<close>


lemma getSecureValue_Inr: "\<exists>v. getSecureValue w key environment = Inr v"
  by (simp add: getSecureValue_def split: sum.split)

lemma getSecureValue_cong:
  assumes "encryptionAvailable w' = encryptionAvailable w"
      and "secureFiles w' (buildSecretFilePath key environment)
             = secureFiles w (buildSecretFilePath key environment)"
  shows "getSecureValue w' key environment = getSecureValue w key environment"
  using assms by (simp add: getSecureValue_def getSecureValue_try_def)


text \<open>
  Claim C3. For every key and environment, \<open>getSecureValue\<close> throws nothing; it
  returns the empty string when the secret file does not exist, and also when the file
  exists and cannot be decrypted, so the two cases look the same to a caller.
\<close>

theorem getSecureValue_never_throws:
  "(\<exists>v. getSecureValue w key environment = Inr v)
   \<and> (secureFiles w (buildSecretFilePath key environment) = None
        \<longrightarrow> getSecureValue w key environment = Inr [])
   \<and> (secureFiles w (buildSecretFilePath key environment) = Some Undecryptable
        \<longrightarrow> getSecureValue w key environment = Inr [])"
  by (simp add: getSecureValue_def getSecureValue_try_def split: sum.split)

theorem getSecureValue_never_throws_witness:
  "secureFiles corruptWorld (buildSecretFilePath ''environments.pat.clientid'' ''prod'')
     = Some Undecryptable
   \<and> getSecureValue corruptWorld ''environments.pat.clientid'' ''prod'' = Inr []
   \<and> secureFiles corruptWorld (buildSecretFilePath ''environments.pat.clientsecret'' ''prod'')
     = None
   \<and> getSecureValue corruptWorld ''environments.pat.clientsecret'' ''prod'' = Inr []"
  using getSecureValue_never_throws [of corruptWorld "''environments.pat.clientid''" "''prod''"]
        getSecureValue_never_throws [of corruptWorld "''environments.pat.clientsecret''" "''prod''"]
  by (simp add: corruptWorld_def path_eq_iff safe_keys)





subsection \<open>Token Codec\<close>

lemma split_str_no_separator: "sep \<notin> set s \<Longrightarrow> split_str sep s = [s]"
  by (induction s) auto

lemma split_str_first:
  "sep \<notin> set s \<Longrightarrow> split_str sep (s @ sep # rest) = s # split_str sep rest"
  by (induction s) auto

lemma split_str_second:
  assumes "sep \<notin> set s" and "rest = [] \<or> hd rest = sep"
  shows "\<exists>more. split_str sep (s @ rest) = s # more"
proof (cases rest)
  case Nil
  with assms show ?thesis by (simp add: split_str_no_separator)
next
  case (Cons c cs)
  with assms have "rest = sep # cs" by simp
  with assms show ?thesis by (simp add: split_str_first)
qed

lemma char_of_48: "char_of (48 :: nat) = CHR ''0''"
  by code_simp

lemma hexValue_hexDigit: "d < 16 \<Longrightarrow> hexValue (hexDigit d) = Some d"
  by (auto simp: hexValue_def hexDigit_def Let_def)

lemma escapeUnit_ascii:
  assumes "u < 128"
  shows "escapeUnit u = [CHR ''%'', hexDigit (u div 16), hexDigit (u mod 16)]"
proof (cases "u < 16")
  case True
  then show ?thesis
    by (simp add: escapeUnit_def sliceLast_def toString16.simps [of u] hexDigit_def char_of_48)
next
  case False
  with assms have "u div 16 < 16" by simp
  with False show ?thesis
    by (simp add: escapeUnit_def sliceLast_def toString16.simps [of u]
        toString16.simps [of "u div 16"])
qed

lemma decodeURIComponent_escapeUnit:
  assumes "u < 128"
  shows "decodeURIComponent (escapeUnit u @ rest) =
           map_sum id ((#) (char_of u)) (decodeURIComponent rest)"
proof -
  have d: "u div 16 < 16" "u mod 16 < 16" using assms by simp_all
  have "16 * (u div 16) + u mod 16 = u" by simp
  then have p: "percentByte (CHR ''%'' # hexDigit (u div 16) # hexDigit (u mod 16) # rest) = Some u"
    by (simp add: percentByte_def hexValue_hexDigit d)
  show ?thesis
    using assms p
    by (cases "decodeURIComponent rest") (simp_all add: escapeUnit_ascii utf8_sequence_length_def)
qed

lemma decodeURIComponent_ascii:
  "list_all (\<lambda>u. u < 128) us \<Longrightarrow>
     decodeURIComponent (concat (map escapeUnit us)) = Inr (map char_of us)"
  by (induction us) (simp_all add: decodeURIComponent_escapeUnit)

text \<open>On a buffer of ASCII bytes the decoding chain of \<open>parseJwt\<close> returns the
  text of the buffer.\<close>

lemma jsonPayloadOf_ascii:
  assumes "list_all (\<lambda>b. unat b < 128)
             (base64Decode rt (replaceAll CHR ''_'' CHR ''/'' (replaceAll CHR ''-'' CHR ''+'' segment)))"
  shows "jsonPayloadOf rt segment =
           Inr (map (\<lambda>b. char_of (unat b))
                  (base64Decode rt
                     (replaceAll CHR ''_'' CHR ''/'' (replaceAll CHR ''-'' CHR ''+'' segment))))"
proof -
  define buf where
    "buf = base64Decode rt (replaceAll CHR ''_'' CHR ''/'' (replaceAll CHR ''-'' CHR ''+'' segment))"
  have ascii: "list_all (\<lambda>u. u < 128) (map unat buf)"
    using assms by (simp add: buf_def list_all_iff)
  then have valid: "valid_utf8 (map unat buf)"
    by (simp add: valid_utf8_def utf8_code_points_ascii)
  have str: "bufferToString rt buf = map (\<lambda>b. char_of (unat b)) buf"
    using valid by (simp add: bufferToString_def)
  have "of_char (char_of (unat b) :: char) = unat b" for b :: byte
  proof -
    have "unat b < 2 ^ LENGTH(8)" by (rule unsigned_less)
    then show ?thesis by simp
  qed
  then have undo: "map of_char (map (\<lambda>b. char_of (unat b)) buf) = map unat buf"
    by (simp add: comp_def)
  have "list_all (\<lambda>c. (of_char c :: nat) < 128) (map (\<lambda>b. char_of (unat b)) buf)"
    using ascii undo by (metis (no_types, lifting) list.pred_map list.pred_mono_strong comp_apply)
  then have units: "codeUnits (map (\<lambda>b. char_of (unat b)) buf) = map unat buf"
    by (simp only: codeUnits_ascii undo)
  have "decodeURIComponent (concat (map escapeUnit (map unat buf))) = Inr (map char_of (map unat buf))"
    by (rule decodeURIComponent_ascii [OF ascii])
  then show ?thesis
    by (simp add: jsonPayloadOf_def Let_def buf_def [symmetric] str units comp_def)
qed

lemma parseJwt_second_segment:
  assumes "CHR ''.'' \<notin> set header" and "CHR ''.'' \<notin> set payload"
      and "rest = [] \<or> hd rest = CHR ''.''"
  shows "parseJwt rt (header @ CHR ''.'' # payload @ rest) =
           andThen (jsonPayloadOf rt payload)
             (\<lambda>jsonPayload. case jsonParse rt jsonPayload of
                               None \<Rightarrow> Inl SyntaxError
                             | Some parsed \<Rightarrow> Inr parsed)"
proof -
  from split_str_second [OF assms(2,3)] obtain more
    where "split_str CHR ''.'' (payload @ rest) = payload # more" by blast
  with assms(1) have "split_str CHR ''.'' (header @ CHR ''.'' # payload @ rest)
                        = header # payload # more"
    by (simp add: split_str_first)
  then show ?thesis by (simp add: parseJwt_def at_index_def)
qed

lemma parseJwt_ascii_payload:
  assumes "CHR ''.'' \<notin> set header" and "CHR ''.'' \<notin> set payload"
      and "rest = [] \<or> hd rest = CHR ''.''"
      and "list_all (\<lambda>b. unat b < 128)
             (base64Decode rt (replaceAll CHR ''_'' CHR ''/'' (replaceAll CHR ''-'' CHR ''+'' payload)))"
  shows "parseJwt rt (header @ CHR ''.'' # payload @ rest) =
           (case jsonParse rt
                   (map (\<lambda>b. char_of (unat b))
                      (base64Decode rt
                         (replaceAll CHR ''_'' CHR ''/'' (replaceAll CHR ''-'' CHR ''+'' payload)))) of
              None \<Rightarrow> Inl SyntaxError
            | Some parsed \<Rightarrow> Inr parsed)"
  by (simp add: parseJwt_second_segment [OF assms(1,2,3)] jsonPayloadOf_ascii [OF assms(4)]
      andThen_def)

lemma parseJwt_one_segment: "CHR ''.'' \<notin> set token \<Longrightarrow> parseJwt rt token = Inl TypeError"
  by (simp add: parseJwt_def split_str_no_separator at_index_def)


lemma unat_bytesOf: "map unat (bytesOf s) = map of_char s"
proof -
  have "unat (of_nat (of_char c) :: byte) = of_char c" for c :: char
    by (simp add: unat_of_nat take_bit_eq_mod)
  then show ?thesis by (simp add: bytesOf_def)
qed

lemma chars_bytesOf: "map (\<lambda>b. char_of (unat b)) (bytesOf s) = s"
proof -
  have "char_of (unat (of_nat (of_char c) :: byte)) = c" for c :: char
    by (simp add: unat_of_nat take_bit_eq_mod)
  then show ?thesis by (simp add: bytesOf_def comp_def)
qed

lemma ascii_bytesOf:
  assumes "list_all (\<lambda>c. (of_char c :: nat) < 128) s"
  shows "list_all (\<lambda>b. unat b < 128) (bytesOf s)"
proof -
  have "list_all (\<lambda>u. u < 128) (map unat (bytesOf s))"
    using assms by (simp add: unat_bytesOf list_all_iff)
  then show ?thesis by (simp add: list_all_iff)
qed

text \<open>A token whose second segment is the base64 form of an ASCII JSON text parses
  to the value of that text.\<close>

lemma parseJwt_of_text:
  assumes "CHR ''.'' \<notin> set header" and "CHR ''.'' \<notin> set payload"
      and "rest = [] \<or> hd rest = CHR ''.''"
      and "base64Decode rt (replaceAll CHR ''_'' CHR ''/'' (replaceAll CHR ''-'' CHR ''+'' payload))
             = bytesOf str"
      and "list_all (\<lambda>c. (of_char c :: nat) < 128) str"
      and "jsonParse rt str = Some v"
  shows "parseJwt rt (header @ CHR ''.'' # payload @ rest) = Inr v"
  using parseJwt_ascii_payload [OF assms(1,2,3)] assms(4,6) ascii_bytesOf [OF assms(5)]
  by (simp add: chars_bytesOf)

lemma example_payloads:
  "base64Decode exampleRuntime
     (replaceAll CHR ''_'' CHR ''/'' (replaceAll CHR ''-'' CHR ''+'' ''eyJleHAiOjE2MDAwMDAwMDB9''))
     = bytesOf (expText ''1600000000'')"
  "base64Decode exampleRuntime
     (replaceAll CHR ''_'' CHR ''/'' (replaceAll CHR ''-'' CHR ''+'' ''eyJleHAiOjE3MDAwMDAxMDB9''))
     = bytesOf (expText ''1700000100'')"
  "base64Decode exampleRuntime
     (replaceAll CHR ''_'' CHR ''/'' (replaceAll CHR ''-'' CHR ''+'' ''eyJleHAiOjE3MDAwMDM2MDB9''))
     = bytesOf (expText ''1700003600'')"
  "base64Decode exampleRuntime
     (replaceAll CHR ''_'' CHR ''/'' (replaceAll CHR ''-'' CHR ''+'' ''eyJleHAiOjE5MDAwMDAwMDB9''))
     = bytesOf (expText ''1900000000'')"
  by (simp_all add: exampleRuntime_def replaceAll_def)

lemma example_texts:
  "list_all (\<lambda>c. (of_char c :: nat) < 128) (expText ''1600000000'')"
  "list_all (\<lambda>c. (of_char c :: nat) < 128) (expText ''1700000100'')"
  "list_all (\<lambda>c. (of_char c :: nat) < 128) (expText ''1700003600'')"
  "list_all (\<lambda>c. (of_char c :: nat) < 128) (expText ''1900000000'')"
  by (simp_all add: expText_def quoted_def)

lemma example_documents:
  "jsonParse exampleRuntime (expText ''1600000000'') = Some (expClaims 1600000000)"
  "jsonParse exampleRuntime (expText ''1700000100'') = Some (expClaims 1700000100)"
  "jsonParse exampleRuntime (expText ''1700003600'') = Some (expClaims 1700003600)"
  "jsonParse exampleRuntime (expText ''1900000000'') = Some (expClaims 1900000000)"
  by (simp_all add: exampleRuntime_def expText_def quoted_def)

lemma example_tokens:
  "parseJwt exampleRuntime token2020 = Inr (expClaims 1600000000)"
  "parseJwt exampleRuntime token2023 = Inr (expClaims 1700000100)"
  "parseJwt exampleRuntime token2023later = Inr (expClaims 1700003600)"
  "parseJwt exampleRuntime token2030 = Inr (expClaims 1900000000)"
  using parseJwt_of_text [of "''eyJhbGciOiJIUzI1NiJ9''" "''eyJleHAiOjE2MDAwMDAwMDB9''" "''.c2ln''",
          OF _ _ _ example_payloads(1) example_texts(1) example_documents(1)]
        parseJwt_of_text [of "''eyJhbGciOiJIUzI1NiJ9''" "''eyJleHAiOjE3MDAwMDAxMDB9''" "''.c2ln''",
          OF _ _ _ example_payloads(2) example_texts(2) example_documents(2)]
        parseJwt_of_text [of "''eyJhbGciOiJIUzI1NiJ9''" "''eyJleHAiOjE3MDAwMDM2MDB9''" "''.c2ln''",
          OF _ _ _ example_payloads(3) example_texts(3) example_documents(3)]
        parseJwt_of_text [of "''eyJhbGciOiJIUzI1NiJ9''" "''eyJleHAiOjE5MDAwMDAwMDB9''" "''.c2ln''",
          OF _ _ _ example_payloads(4) example_texts(4) example_documents(4)]
  by (simp_all add: token2020_def token2023_def token2023later_def token2030_def)

text \<open>Beyond ASCII the decoding chain of \<open>parseJwt\<close> is not the identity:
  \<open>toString()\<close> has already decoded the UTF-8 bytes when the characters are
  escaped, so a buffer holding the two bytes of U+00E9 becomes \<open>%e9\<close>, which
  \<open>decodeURIComponent\<close> refuses.\<close>

lemma toString16_233: "toString16 233 = ''e9''"
  by code_simp

lemma jsonPayloadOf_beyond_ascii:
  assumes "base64Decode rt (replaceAll CHR ''_'' CHR ''/'' (replaceAll CHR ''-'' CHR ''+'' segment))
             = [195, 169]"
  shows "jsonPayloadOf rt segment = Inl URIError"
proof -
  have v: "utf8_code_points [195, 169] = Some [233]"
    by (simp add: utf8_sequence_length_def continuation_def)
  have s: "bufferToString rt [195, 169] = [char_of (195 :: nat), char_of (169 :: nat)]"
    using v by (simp add: bufferToString_def valid_utf8_def)
  have u: "codeUnits [char_of (195 :: nat), char_of (169 :: nat)] = [233]"
    using v by (simp add: codeUnits_def)
  have e: "escapeUnit 233 = ''%e9''"
    by (simp add: escapeUnit_def sliceLast_def toString16_233)
  have d: "decodeURIComponent ''%e9'' = Inl URIError"
    by (simp add: percentByte_def hexValue_def utf8_sequence_length_def numeral_2_eq_2)
  have "jsonPayloadOf rt segment = decodeURIComponent ''%e9''"
    by (simp add: jsonPayloadOf_def assms s u e del: decodeURIComponent.simps)
  with d show ?thesis by (simp del: decodeURIComponent.simps)
qed

text \<open>
  Claim C5, as the code has it. \<open>parseJwt\<close> throws on a token without a dot, that is,
  one that splits into fewer than two segments. It does not count the segments beyond
  that: on every token with a second segment (two, three or more segments) it decodes
  the second one. The base64 decoder throws on no input, so a segment that is not
  base64url is not refused as such. When the second segment decodes to ASCII bytes,
  \<open>parseJwt\<close> throws a \<open>SyntaxError\<close> if the text of these bytes is not a JSON
  document and returns otherwise the whole value \<open>JSON.parse\<close> gives for it, never
  a part of it.
\<close>

theorem parseJwt_decodes_second_segment:
  "(CHR ''.'' \<notin> set token \<longrightarrow> parseJwt rt token = Inl TypeError)
   \<and> (CHR ''.'' \<notin> set header \<and> CHR ''.'' \<notin> set payload
        \<and> (rest = [] \<or> hd rest = CHR ''.'')
        \<and> list_all (\<lambda>b. unat b < 128)
             (base64Decode rt
                (replaceAll CHR ''_'' CHR ''/'' (replaceAll CHR ''-'' CHR ''+'' payload)))
       \<longrightarrow> parseJwt rt (header @ CHR ''.'' # payload @ rest) =
             (case jsonParse rt
                     (map (\<lambda>b. char_of (unat b))
                        (base64Decode rt
                           (replaceAll CHR ''_'' CHR ''/''
                              (replaceAll CHR ''-'' CHR ''+'' payload)))) of
                None \<Rightarrow> Inl SyntaxError
              | Some parsed \<Rightarrow> Inr parsed))"
proof (intro conjI impI)
  assume "CHR ''.'' \<notin> set token"
  then show "parseJwt rt token = Inl TypeError"
    by (rule parseJwt_one_segment)
next
  assume a: "CHR ''.'' \<notin> set header \<and> CHR ''.'' \<notin> set payload
        \<and> (rest = [] \<or> hd rest = CHR ''.'')
        \<and> list_all (\<lambda>b. unat b < 128)
             (base64Decode rt
                (replaceAll CHR ''_'' CHR ''/'' (replaceAll CHR ''-'' CHR ''+'' payload)))"
  show "parseJwt rt (header @ CHR ''.'' # payload @ rest) =
             (case jsonParse rt
                     (map (\<lambda>b. char_of (unat b))
                        (base64Decode rt
                           (replaceAll CHR ''_'' CHR ''/''
                              (replaceAll CHR ''-'' CHR ''+'' payload)))) of
                None \<Rightarrow> Inl SyntaxError
              | Some parsed \<Rightarrow> Inr parsed)"
    by (rule parseJwt_ascii_payload) (use a in simp_all)
qed

theorem parseJwt_decodes_second_segment_witness:
  "CHR ''.'' \<notin> set ''eyJhbGciOiJIUzI1NiJ9''
   \<and> parseJwt exampleRuntime ''eyJhbGciOiJIUzI1NiJ9'' = Inl TypeError
   \<and> CHR ''.'' \<notin> set ''eyJleHAiOjE2MDAwMDAwMDB9''
   \<and> list_all (\<lambda>b. unat b < 128)
        (base64Decode exampleRuntime
           (replaceAll CHR ''_'' CHR ''/''
              (replaceAll CHR ''-'' CHR ''+'' ''eyJleHAiOjE2MDAwMDAwMDB9'')))
   \<and> parseJwt exampleRuntime
        (''eyJhbGciOiJIUzI1NiJ9'' @ CHR ''.'' # ''eyJleHAiOjE2MDAwMDAwMDB9'' @ ''.c2ln'')
       = Inr (JObject [(''exp'', JNumber 1600000000)])"
  using parseJwt_decodes_second_segment
          [of "''eyJhbGciOiJIUzI1NiJ9''" exampleRuntime "''eyJhbGciOiJIUzI1NiJ9''"
              "''eyJleHAiOjE2MDAwMDAwMDB9''" "''.c2ln''"]
        ascii_bytesOf [OF example_texts(1)]
  by (simp add: example_payloads chars_bytesOf example_documents expClaims_def)

text \<open>Claim C5 as stated fails: a token of two segments is not refused.\<close>

theorem parseJwt_two_segments_counterexample:
  "length (split_str CHR ''.'' ''eyJhbGciOiJIUzI1NiJ9.eyJleHAiOjE2MDAwMDAwMDB9'') = 2
   \<and> parseJwt exampleRuntime ''eyJhbGciOiJIUzI1NiJ9.eyJleHAiOjE2MDAwMDAwMDB9''
       = Inr (JObject [(''exp'', JNumber 1600000000)])"
proof -
  have "split_str CHR ''.'' (''eyJhbGciOiJIUzI1NiJ9'' @ CHR ''.'' # ''eyJleHAiOjE2MDAwMDAwMDB9'')
          = [''eyJhbGciOiJIUzI1NiJ9'', ''eyJleHAiOjE2MDAwMDAwMDB9'']"
    by (simp add: split_str_first split_str_no_separator)
  moreover have "parseJwt exampleRuntime
                   (''eyJhbGciOiJIUzI1NiJ9'' @ CHR ''.'' # ''eyJleHAiOjE2MDAwMDAwMDB9'' @ [])
                 = Inr (expClaims 1600000000)"
    by (rule parseJwt_of_text [OF _ _ _ example_payloads(1) example_texts(1)
              example_documents(1)]) simp_all
  ultimately show ?thesis by (simp add: expClaims_def)
qed


subsection \<open>Decrypting the token payload\<close>

lemma validPadding_iff:
  "validPadding decrypted paddingLen i
     \<longleftrightarrow> (\<forall>j. i \<le> j \<and> j < length decrypted \<longrightarrow> unat (decrypted ! j) = paddingLen)"
proof (induction decrypted paddingLen i rule: validPadding.induct)
  case (1 decrypted paddingLen i)
  show ?case
  proof (cases "i < length decrypted")
    case False
    then show ?thesis by (simp add: validPadding.simps [of decrypted paddingLen i])
  next
    case True
    show ?thesis
    proof (cases "unat (decrypted ! i) = paddingLen")
      case False
      with True show ?thesis
        by (auto simp: validPadding.simps [of decrypted paddingLen i])
    next
      case eq: True
      have "(\<forall>j. i \<le> j \<and> j < length decrypted \<longrightarrow> unat (decrypted ! j) = paddingLen)
              \<longleftrightarrow> (\<forall>j. i + 1 \<le> j \<and> j < length decrypted \<longrightarrow> unat (decrypted ! j) = paddingLen)"
      proof
        assume "\<forall>j. i \<le> j \<and> j < length decrypted \<longrightarrow> unat (decrypted ! j) = paddingLen"
        then show "\<forall>j. i + 1 \<le> j \<and> j < length decrypted \<longrightarrow> unat (decrypted ! j) = paddingLen"
          by simp
      next
        assume r: "\<forall>j. i + 1 \<le> j \<and> j < length decrypted \<longrightarrow> unat (decrypted ! j) = paddingLen"
        show "\<forall>j. i \<le> j \<and> j < length decrypted \<longrightarrow> unat (decrypted ! j) = paddingLen"
        proof (intro allI impI)
          fix j assume j: "i \<le> j \<and> j < length decrypted"
          show "unat (decrypted ! j) = paddingLen"
          proof (cases "j = i")
            case True
            with eq show ?thesis by simp
          next
            case False
            with j have "i + 1 \<le> j \<and> j < length decrypted" by simp
            with r show ?thesis by blast
          qed
        qed
      qed
      with True eq "1.IH" show ?thesis
        by (simp add: validPadding.simps [of decrypted paddingLen i])
    qed
  qed
qed

lemma all_from_index_iff:
  "(\<forall>j. i \<le> j \<and> j < length xs \<longrightarrow> P (xs ! j)) \<longleftrightarrow> (\<forall>x\<in>set (drop i xs). P x)"
proof
  assume l: "\<forall>j. i \<le> j \<and> j < length xs \<longrightarrow> P (xs ! j)"
  show "\<forall>x\<in>set (drop i xs). P x"
  proof
    fix x assume "x \<in> set (drop i xs)"
    then obtain k where k: "k < length (drop i xs)" "drop i xs ! k = x"
      by (auto simp: in_set_conv_nth)
    then have "i + k < length xs" "xs ! (i + k) = x" by simp_all
    with l show "P x" by (metis le_add1)
  qed
next
  assume r: "\<forall>x\<in>set (drop i xs). P x"
  show "\<forall>j. i \<le> j \<and> j < length xs \<longrightarrow> P (xs ! j)"
  proof (intro allI impI)
    fix j assume j: "i \<le> j \<and> j < length xs"
    then have "j - i < length (drop i xs)" "drop i xs ! (j - i) = xs ! j" by (simp_all, arith)
    then have "xs ! j \<in> set (drop i xs)" by (metis nth_mem)
    with r show "P (xs ! j)" by blast
  qed
qed

text \<open>What the padding block of \<open>decryptTokenInfo\<close> computes.\<close>

lemma removePadding_eq:
  "removePadding decrypted =
     (if decrypted \<noteq> [] \<and> 1 \<le> unat (last decrypted) \<and> unat (last decrypted) \<le> 16
         \<and> unat (last decrypted) \<le> length decrypted
         \<and> (\<forall>b\<in>set (drop (length decrypted - unat (last decrypted)) decrypted).
               b = last decrypted)
      then take (length decrypted - unat (last decrypted)) decrypted
      else decrypted)"
proof (cases "decrypted = []")
  case True
  then show ?thesis by (simp add: removePadding_def)
next
  case False
  then have l: "decrypted ! (length decrypted - 1) = last decrypted"
    by (simp add: last_conv_nth)
  have "validPadding decrypted (unat (last decrypted)) (length decrypted - unat (last decrypted))
          \<longleftrightarrow> (\<forall>b\<in>set (drop (length decrypted - unat (last decrypted)) decrypted).
                 unat b = unat (last decrypted))"
    by (simp add: validPadding_iff
          all_from_index_iff [of _ decrypted "\<lambda>b. unat b = unat (last decrypted)"])
  with False l show ?thesis
    by (auto simp: removePadding_def Let_def word_unat_eq_iff [symmetric])
qed

text \<open>
  Claim C6. Let \<open>decrypted\<close> be the buffer the AES-256-CBC decipher returns for the
  payload. If it is not empty, its last byte \<open>n\<close> satisfies \<open>1 \<le> n \<le> 16\<close> and
  \<open>n \<le> length decrypted\<close>, and its last \<open>n\<close> bytes all equal \<open>n\<close>, then
  \<open>decryptTokenInfo\<close> returns the text of the buffer without these \<open>n\<close> bytes. In
  every other case it returns the text of the whole buffer and throws nothing.
\<close>

theorem decryptTokenInfo_strips_padding:
  assumes "split_str CHR '':'' encryptedToken = [ivHex, dataHex]"
      and "aes256cbc rt (hexDecode rt encryptionKey) (hexDecode rt ivHex) (hexDecode rt dataHex)
             = Inr decrypted"
  shows "decryptTokenInfo rt encryptedToken encryptionKey =
           Inr (bufferToString rt
                  (if decrypted \<noteq> [] \<and> 1 \<le> unat (last decrypted)
                      \<and> unat (last decrypted) \<le> 16
                      \<and> unat (last decrypted) \<le> length decrypted
                      \<and> (\<forall>b\<in>set (drop (length decrypted - unat (last decrypted)) decrypted).
                            b = last decrypted)
                   then take (length decrypted - unat (last decrypted)) decrypted
                   else decrypted))"
  using assms
  by (simp add: decryptTokenInfo_def Let_def andThen_def removePadding_eq del: One_nat_def)

theorem decryptTokenInfo_strips_padding_witness:
  "split_str CHR '':'' ''0a0b:0a0b'' = [''0a0b'', ''0a0b'']
   \<and> aes256cbc exampleRuntime (hexDecode exampleRuntime ''0a0b'') (hexDecode exampleRuntime ''0a0b'')
        (hexDecode exampleRuntime ''0a0b'') = Inr paddedPlaintext
   \<and> decryptTokenInfo exampleRuntime ''0a0b:0a0b'' ''0a0b'' = Inr ''{}''"
proof -
  have s: "split_str CHR '':'' ''0a0b:0a0b'' = [''0a0b'', ''0a0b'']"
    by simp
  have a: "aes256cbc exampleRuntime (hexDecode exampleRuntime ''0a0b'')
             (hexDecode exampleRuntime ''0a0b'') (hexDecode exampleRuntime ''0a0b'')
           = Inr paddedPlaintext"
    by (simp add: exampleRuntime_def)
  have l: "last paddedPlaintext = 14" "length paddedPlaintext = 16"
    "drop 2 paddedPlaintext = [14, 14, 14, 14, 14, 14, 14, 14, 14, 14, 14, 14, 14, 14]"
    "take 2 paddedPlaintext = bytesOf ''{}''" "paddedPlaintext \<noteq> []"
    by (simp_all add: paddedPlaintext_def bytesOf_def)
  have v: "valid_utf8 (map unat (bytesOf ''{}''))"
    by (simp add: unat_bytesOf valid_utf8_def utf8_sequence_length_def)
  have "decryptTokenInfo exampleRuntime ''0a0b:0a0b'' ''0a0b'' = Inr ''{}''"
    using decryptTokenInfo_strips_padding [OF s a] v
    by (simp add: l bufferToString_def chars_bytesOf)
  with s a show ?thesis by simp
qed


subsection \<open>Environment Registry\<close>










lemma objectSet_present: "map_of (objectSet obj k v) k \<noteq> None"
proof (cases "map_of obj k")
  case None
  then show ?thesis
    by (cases "arrayIndex k") (simp_all add: objectSet_def)
next
  case (Some a)
  then have "(k, a) \<in> set obj" by (rule map_of_SomeD)
  then have "k \<in> fst ` set obj" by force
  then have "k \<in> fst ` set (map (\<lambda>(k', v'). if k' = k then (k', v) else (k', v')) obj)"
    by (force simp: image_iff split: prod.splits)
  then have "map_of (map (\<lambda>(k', v'). if k' = k then (k', v) else (k', v')) obj) k \<noteq> None"
    by (simp add: map_of_eq_None_iff)
  with Some show ?thesis by (simp add: objectSet_def)
qed

lemma replace_fixed:
  assumes "\<forall>(k', v') \<in> set obj. k' = k \<longrightarrow> v' = v"
  shows "map (\<lambda>(k', v'). if k' = k then (k', v) else (k', v')) obj = obj"
  using assms by (induction obj) auto

lemma objectSet_values: "\<forall>(k', v') \<in> set (objectSet obj k v). k' = k \<longrightarrow> v' = v"
proof (cases "map_of obj k")
  case None
  then have notin: "\<forall>(k', v') \<in> set obj. k' \<noteq> k"
    by (auto simp: map_of_eq_None_iff image_iff)
  with None show ?thesis
    by (cases "arrayIndex k")
       (auto simp: objectSet_def dest: set_takeWhileD set_dropWhileD)
next
  case (Some a)
  then show ?thesis by (auto simp: objectSet_def split: if_splits)
qed

lemma objectSet_idem: "objectSet (objectSet obj k v) k v = objectSet obj k v"
proof -
  have "objectSet (objectSet obj k v) k v =
          map (\<lambda>(k', v'). if k' = k then (k', v) else (k', v')) (objectSet obj k v)"
    using objectSet_present [of obj k v] by (simp add: objectSet_def [of "objectSet obj k v"])
  also have "\<dots> = objectSet obj k v"
    by (rule replace_fixed [OF objectSet_values])
  finally show ?thesis .
qed

text \<open>
  Claim C7. Running \<open>updateEnvironment\<close> a second time with the same request, on
  the disk the first run left, returns the same result and leaves the disk as the
  first run left it: the same registry file (environments and their URLs, active
  environment, global auth mode) and the same secret files.
\<close>

theorem updateEnvironment_idempotent:
  "updateEnvironment (fst (updateEnvironment w request)) request = updateEnvironment w request"
  by (cases "truthy (clientId request)"; cases "truthy (clientSecret request)";
      cases "encryptionAvailable w";
      simp add: updateEnvironment_def Let_def setSecureValue_def setConfig_def getConfig_def
        objectSet_idem)

theorem updateEnvironment_idempotent_witness:
  "updateEnvironment (fst (updateEnvironment exampleWorld patRequest)) patRequest
     = updateEnvironment exampleWorld patRequest
   \<and> success (snd (updateEnvironment exampleWorld patRequest))
   \<and> getSecureValue (fst (updateEnvironment exampleWorld patRequest))
        ''environments.pat.clientid'' ''prod'' = Inr ''abc''"
  using updateEnvironment_idempotent [of exampleWorld patRequest]
  by (simp add: updateEnvironment_def Let_def setSecureValue_def setConfig_def getConfig_def
      exampleWorld_def patRequest_def succeeded_def getSecureValue_def getSecureValue_try_def
      path_eq_iff safe_keys)


subsection \<open>Service-Credential Flow\<close>

text \<open>\<open>storePATTokens\<close> writes at most the two files of the access token and its
  expiry, and both when it returns.\<close>

lemma storePATTokens_world:
  "\<exists>files. fst (storePATTokens rt w environment token expires) = w\<lparr>secureFiles := files\<rparr>
     \<and> (\<forall>p. p \<noteq> buildSecretFilePath ''environments.pat.accesstoken'' environment
            \<and> p \<noteq> buildSecretFilePath ''environments.pat.expiry'' environment
            \<longrightarrow> files p = secureFiles w p)
     \<and> (snd (storePATTokens rt w environment token expires) = Inr ()
            \<longrightarrow> (\<exists>iso. dateISO rt expires = Inr iso
                  \<and> files = (secureFiles w)
                      (buildSecretFilePath ''environments.pat.accesstoken'' environment
                         \<mapsto> Encrypted token,
                       buildSecretFilePath ''environments.pat.expiry'' environment
                         \<mapsto> Encrypted iso)))"
proof (cases "encryptionAvailable w")
  case False
  then have "storePATTokens rt w environment token expires
               = (w, Inl (Error ''Encryption not available''))"
    by (simp add: storePATTokens_def setSecureValue_def andThenW_def)
  then show ?thesis
    by (intro exI [of _ "secureFiles w"]) simp
next
  case True
  show ?thesis
  proof (cases "dateISO rt expires")
    case (Inl e)
    with True have "storePATTokens rt w environment token expires
        = (w\<lparr>secureFiles := (secureFiles w)
               (buildSecretFilePath ''environments.pat.accesstoken'' environment
                  \<mapsto> Encrypted token)\<rparr>, Inl e)"
      by (simp add: storePATTokens_def setSecureValue_def andThenW_def)
    then show ?thesis
      by (intro exI [of _ "(secureFiles w)
               (buildSecretFilePath ''environments.pat.accesstoken'' environment
                  \<mapsto> Encrypted token)"]) simp
  next
    case (Inr iso)
    with True have "storePATTokens rt w environment token expires
        = (w\<lparr>secureFiles := (secureFiles w)
               (buildSecretFilePath ''environments.pat.accesstoken'' environment
                  \<mapsto> Encrypted token,
                buildSecretFilePath ''environments.pat.expiry'' environment
                  \<mapsto> Encrypted iso)\<rparr>, Inr ())"
      by (simp add: storePATTokens_def setSecureValue_def andThenW_def)
    with Inr show ?thesis
      by (intro exI [of _ "(secureFiles w)
               (buildSecretFilePath ''environments.pat.accesstoken'' environment
                  \<mapsto> Encrypted token,
                buildSecretFilePath ''environments.pat.expiry'' environment
                  \<mapsto> Encrypted iso)"]) simp
  qed
qed

text \<open>How a call of \<open>refreshPATToken\<close> ends: it throws before any request, it
  throws after its one request without writing a file, or it ends in \<open>storePATTokens\<close>
  after its one request.\<close>

lemma refreshPATToken_result:
  assumes "\<And>e. P (w, Inl e)"
      and "\<And>r e. P (w\<lparr>requests := requests w @ [r]\<rparr>, Inl e)"
      and "\<And>r token expires.
             P (storePATTokens rt (w\<lparr>requests := requests w @ [r]\<rparr>) environment token expires)"
  shows "P (refreshPATToken rt w environment)"
  by (simp add: refreshPATToken_def andThenW_def send_def Let_def assms
           split: sum.splits option.splits)

text \<open>Whatever way \<open>refreshPATToken\<close> ends, it leaves every secret file other than
  the two of the access token and its expiry as it was, and the registry too.\<close>

lemma refreshPATToken_frame:
  "\<exists>files reqs. fst (refreshPATToken rt w environment) = w\<lparr>secureFiles := files, requests := reqs\<rparr>
     \<and> (\<forall>p. p \<noteq> buildSecretFilePath ''environments.pat.accesstoken'' environment
            \<and> p \<noteq> buildSecretFilePath ''environments.pat.expiry'' environment
            \<longrightarrow> files p = secureFiles w p)"
proof (rule refreshPATToken_result)
  fix e
  show "\<exists>files reqs. fst (w, Inl e :: exn + unit) = w\<lparr>secureFiles := files, requests := reqs\<rparr>
     \<and> (\<forall>p. p \<noteq> buildSecretFilePath ''environments.pat.accesstoken'' environment
            \<and> p \<noteq> buildSecretFilePath ''environments.pat.expiry'' environment
            \<longrightarrow> files p = secureFiles w p)"
    by (intro exI [of _ "secureFiles w"] exI [of _ "requests w"]) simp
next
  fix r e
  show "\<exists>files reqs. fst (w\<lparr>requests := requests w @ [r]\<rparr>, Inl e :: exn + unit)
                        = w\<lparr>secureFiles := files, requests := reqs\<rparr>
     \<and> (\<forall>p. p \<noteq> buildSecretFilePath ''environments.pat.accesstoken'' environment
            \<and> p \<noteq> buildSecretFilePath ''environments.pat.expiry'' environment
            \<longrightarrow> files p = secureFiles w p)"
    by (intro exI [of _ "secureFiles w"] exI [of _ "requests w @ [r]"]) simp
next
  fix r token expires
  from storePATTokens_world [of rt "w\<lparr>requests := requests w @ [r]\<rparr>" environment token expires]
  obtain files where
      f: "fst (storePATTokens rt (w\<lparr>requests := requests w @ [r]\<rparr>) environment token expires)
            = w\<lparr>requests := requests w @ [r], secureFiles := files\<rparr>"
    and g: "\<forall>p. p \<noteq> buildSecretFilePath ''environments.pat.accesstoken'' environment
            \<and> p \<noteq> buildSecretFilePath ''environments.pat.expiry'' environment
            \<longrightarrow> files p = secureFiles w p"
    by auto
  show "\<exists>files reqs.
          fst (storePATTokens rt (w\<lparr>requests := requests w @ [r]\<rparr>) environment token expires)
            = w\<lparr>secureFiles := files, requests := reqs\<rparr>
     \<and> (\<forall>p. p \<noteq> buildSecretFilePath ''environments.pat.accesstoken'' environment
            \<and> p \<noteq> buildSecretFilePath ''environments.pat.expiry'' environment
            \<longrightarrow> files p = secureFiles w p)"
    by (intro exI [of _ files] exI [of _ "requests w @ [r]"]) (simp add: f g)
qed

lemma refreshPATToken_success:
  assumes "snd (refreshPATToken rt w environment) = Inr ()"
  shows "\<exists>token iso.
           secureFiles (fst (refreshPATToken rt w environment)) =
             (secureFiles w)
               (buildSecretFilePath ''environments.pat.accesstoken'' environment \<mapsto> Encrypted token,
                buildSecretFilePath ''environments.pat.expiry'' environment \<mapsto> Encrypted iso)"
proof -
  have "snd (refreshPATToken rt w environment) = Inr () \<longrightarrow>
         (\<exists>token iso.
           secureFiles (fst (refreshPATToken rt w environment)) =
             (secureFiles w)
               (buildSecretFilePath ''environments.pat.accesstoken'' environment \<mapsto> Encrypted token,
                buildSecretFilePath ''environments.pat.expiry'' environment \<mapsto> Encrypted iso))"
  proof (rule refreshPATToken_result
           [where P = "\<lambda>res. snd res = Inr () \<longrightarrow>
              (\<exists>token iso. secureFiles (fst res) =
                (secureFiles w)
                 (buildSecretFilePath ''environments.pat.accesstoken'' environment \<mapsto> Encrypted token,
                  buildSecretFilePath ''environments.pat.expiry'' environment \<mapsto> Encrypted iso))"])
    fix r token expires
    from storePATTokens_world [of rt "w\<lparr>requests := requests w @ [r]\<rparr>" environment token expires]
    obtain files where
        f: "fst (storePATTokens rt (w\<lparr>requests := requests w @ [r]\<rparr>) environment token expires)
              = w\<lparr>requests := requests w @ [r], secureFiles := files\<rparr>"
      and h: "snd (storePATTokens rt (w\<lparr>requests := requests w @ [r]\<rparr>) environment token expires)
                = Inr ()
            \<longrightarrow> (\<exists>iso. dateISO rt expires = Inr iso
                  \<and> files = (secureFiles w)
                      (buildSecretFilePath ''environments.pat.accesstoken'' environment
                         \<mapsto> Encrypted token,
                       buildSecretFilePath ''environments.pat.expiry'' environment
                         \<mapsto> Encrypted iso))"
      by auto
    show "snd (storePATTokens rt (w\<lparr>requests := requests w @ [r]\<rparr>) environment token expires)
            = Inr () \<longrightarrow>
          (\<exists>token' iso.
             secureFiles (fst (storePATTokens rt (w\<lparr>requests := requests w @ [r]\<rparr>)
                                 environment token expires)) =
               (secureFiles w)
                 (buildSecretFilePath ''environments.pat.accesstoken'' environment \<mapsto> Encrypted token',
                  buildSecretFilePath ''environments.pat.expiry'' environment \<mapsto> Encrypted iso))"
      using h by (auto simp: f)
  qed simp_all
  with assms show ?thesis by blast
qed

lemma refreshPATToken_http_failure:
  assumes "getStoredPATTokens rt w environment = Inr (Some storedTokens)"
      and "getConfig w = Inr config"
      and "map_of (environments config) environment = Some envConfig"
      and "(\<exists>e. fetch rt (patTokenRequest rt envConfig storedTokens) = Inl e)
           \<or> (\<exists>response. fetch rt (patTokenRequest rt envConfig storedTokens) = Inr response
                           \<and> \<not> ok response)"
  shows "\<exists>e. refreshPATToken rt w environment =
               (w\<lparr>requests := requests w @ [patTokenRequest rt envConfig storedTokens]\<rparr>, Inl e)"
  using assms
  by (auto simp: refreshPATToken_def andThenW_def send_def)


lemma devPatWorld_eq:
  "devPatWorld =
     exampleWorld
       \<lparr>secureFiles :=
          [buildSecretFilePath ''environments.pat.clientid'' ''dev'' \<mapsto> Encrypted ''abc'',
           buildSecretFilePath ''environments.pat.clientsecret'' ''dev'' \<mapsto> Encrypted ''xyz''],
        configFile := Inr (exampleConfig\<lparr>authtype := pat, activeenvironment := ''dev''\<rparr>)\<rparr>"
  by (simp add: devPatWorld_def updateEnvironment_def Let_def setSecureValue_def setConfig_def
      getConfig_def exampleWorld_def exampleConfig_def objectSet_def)

lemma devPatWorld_stored:
  "getStoredPATTokens exampleRuntime devPatWorld ''dev'' =
     Inr (Some \<lparr>patAccessToken = [], patAccessExpiry = None,
                 patClientId = ''abc'', patClientSecret = ''xyz''\<rparr>)"
  by (simp add: getStoredPATTokens_def andThen_def getSecureValue_def getSecureValue_try_def
      devPatWorld_eq exampleWorld_def path_eq_iff safe_keys exampleRuntime_def)

text \<open>
  Claim C8. Whatever the token endpoint answers, \<open>refreshPATToken\<close> leaves the
  stored client identifier and client secret as they were, and with them every secret
  file other than the two of the access token and its expiry, and the registry. When
  the request to \<open>{baseUrl}/oauth/token\<close> throws or is answered with a status that
  is not a success, \<open>refreshPATToken\<close> throws and has written no file. When it
  returns, exactly the files of the access token and of its expiry have been written.
\<close>

theorem refreshPATToken_keeps_credentials:
  "getSecureValue (fst (refreshPATToken rt w environment)) ''environments.pat.clientid'' environment
     = getSecureValue w ''environments.pat.clientid'' environment
   \<and> getSecureValue (fst (refreshPATToken rt w environment)) ''environments.pat.clientsecret''
       environment
     = getSecureValue w ''environments.pat.clientsecret'' environment
   \<and> (\<forall>p. p \<noteq> buildSecretFilePath ''environments.pat.accesstoken'' environment
          \<and> p \<noteq> buildSecretFilePath ''environments.pat.expiry'' environment
          \<longrightarrow> secureFiles (fst (refreshPATToken rt w environment)) p = secureFiles w p)
   \<and> configFile (fst (refreshPATToken rt w environment)) = configFile w
   \<and> (getStoredPATTokens rt w environment = Inr (Some storedTokens)
        \<and> getConfig w = Inr config
        \<and> map_of (environments config) environment = Some envConfig
        \<and> ((\<exists>e. fetch rt (patTokenRequest rt envConfig storedTokens) = Inl e)
             \<or> (\<exists>response. fetch rt (patTokenRequest rt envConfig storedTokens) = Inr response
                            \<and> \<not> ok response))
       \<longrightarrow> (\<exists>e. snd (refreshPATToken rt w environment) = Inl e)
           \<and> secureFiles (fst (refreshPATToken rt w environment)) = secureFiles w)
   \<and> (snd (refreshPATToken rt w environment) = Inr ()
       \<longrightarrow> (\<exists>token iso.
              secureFiles (fst (refreshPATToken rt w environment)) =
                (secureFiles w)
                  (buildSecretFilePath ''environments.pat.accesstoken'' environment
                     \<mapsto> Encrypted token,
                   buildSecretFilePath ''environments.pat.expiry'' environment
                     \<mapsto> Encrypted iso)))"
proof -
  from refreshPATToken_frame [of rt w environment] obtain files reqs where
      w': "fst (refreshPATToken rt w environment) = w\<lparr>secureFiles := files, requests := reqs\<rparr>"
    and frame: "\<forall>p. p \<noteq> buildSecretFilePath ''environments.pat.accesstoken'' environment
                  \<and> p \<noteq> buildSecretFilePath ''environments.pat.expiry'' environment
                  \<longrightarrow> files p = secureFiles w p"
    by blast
  have id: "getSecureValue (fst (refreshPATToken rt w environment)) ''environments.pat.clientid''
              environment
            = getSecureValue w ''environments.pat.clientid'' environment"
    by (rule getSecureValue_cong) (simp_all add: w' frame path_eq_iff safe_keys)
  have secret: "getSecureValue (fst (refreshPATToken rt w environment))
                  ''environments.pat.clientsecret'' environment
                = getSecureValue w ''environments.pat.clientsecret'' environment"
    by (rule getSecureValue_cong) (simp_all add: w' frame path_eq_iff safe_keys)
  have others: "\<forall>p. p \<noteq> buildSecretFilePath ''environments.pat.accesstoken'' environment
          \<and> p \<noteq> buildSecretFilePath ''environments.pat.expiry'' environment
          \<longrightarrow> secureFiles (fst (refreshPATToken rt w environment)) p = secureFiles w p"
    using frame by (simp add: w')
  have registry: "configFile (fst (refreshPATToken rt w environment)) = configFile w"
    by (simp add: w')
  have failure: "getStoredPATTokens rt w environment = Inr (Some storedTokens)
        \<and> getConfig w = Inr config
        \<and> map_of (environments config) environment = Some envConfig
        \<and> ((\<exists>e. fetch rt (patTokenRequest rt envConfig storedTokens) = Inl e)
             \<or> (\<exists>response. fetch rt (patTokenRequest rt envConfig storedTokens) = Inr response
                            \<and> \<not> ok response))
       \<longrightarrow> (\<exists>e. snd (refreshPATToken rt w environment) = Inl e)
           \<and> secureFiles (fst (refreshPATToken rt w environment)) = secureFiles w"
  proof
    assume a: "getStoredPATTokens rt w environment = Inr (Some storedTokens)
        \<and> getConfig w = Inr config
        \<and> map_of (environments config) environment = Some envConfig
        \<and> ((\<exists>e. fetch rt (patTokenRequest rt envConfig storedTokens) = Inl e)
             \<or> (\<exists>response. fetch rt (patTokenRequest rt envConfig storedTokens) = Inr response
                            \<and> \<not> ok response))"
    then obtain e where
      "refreshPATToken rt w environment =
         (w\<lparr>requests := requests w @ [patTokenRequest rt envConfig storedTokens]\<rparr>, Inl e)"
      using refreshPATToken_http_failure [of rt w environment storedTokens config envConfig]
      by blast
    then show "(\<exists>e. snd (refreshPATToken rt w environment) = Inl e)
           \<and> secureFiles (fst (refreshPATToken rt w environment)) = secureFiles w"
      by simp
  qed
  have written: "snd (refreshPATToken rt w environment) = Inr ()
       \<longrightarrow> (\<exists>token iso.
              secureFiles (fst (refreshPATToken rt w environment)) =
                (secureFiles w)
                  (buildSecretFilePath ''environments.pat.accesstoken'' environment
                     \<mapsto> Encrypted token,
                   buildSecretFilePath ''environments.pat.expiry'' environment
                     \<mapsto> Encrypted iso))"
    using refreshPATToken_success [of rt w environment] by blast
  show ?thesis
    by (rule conjI [OF id conjI [OF secret conjI [OF others conjI [OF registry
          conjI [OF failure written]]]]])
qed

theorem refreshPATToken_keeps_credentials_witness:
  "getStoredPATTokens exampleRuntime devPatWorld ''dev'' =
     Inr (Some \<lparr>patAccessToken = [], patAccessExpiry = None,
                 patClientId = ''abc'', patClientSecret = ''xyz''\<rparr>)
   \<and> fetch exampleRuntime
        (patTokenRequest exampleRuntime
           \<lparr>tenanturl = ''https://dev.identitynow.com'',
            baseurl = ''https://dev.api.identitynow.com''\<rparr>
           \<lparr>patAccessToken = [], patAccessExpiry = None,
            patClientId = ''abc'', patClientSecret = ''xyz''\<rparr>)
       = Inr \<lparr>ok = False, status = 401, statusText = ''Unauthorized'', responseBody = []\<rparr>
   \<and> (\<exists>e. snd (refreshPATToken exampleRuntime devPatWorld ''dev'') = Inl e)
   \<and> secureFiles (fst (refreshPATToken exampleRuntime devPatWorld ''dev'')) = secureFiles devPatWorld
   \<and> getSecureValue (fst (refreshPATToken exampleRuntime devPatWorld ''dev''))
        ''environments.pat.clientid'' ''dev'' = Inr ''abc''
   \<and> getSecureValue (fst (refreshPATToken exampleRuntime devPatWorld ''dev''))
        ''environments.pat.clientsecret'' ''dev'' = Inr ''xyz''"
proof -
  have cfg: "getConfig devPatWorld = Inr (exampleConfig\<lparr>authtype := pat, activeenvironment := ''dev''\<rparr>)"
    by (simp add: getConfig_def devPatWorld_eq)
  have env: "map_of (environments (exampleConfig\<lparr>authtype := pat, activeenvironment := ''dev''\<rparr>)) ''dev''
               = Some \<lparr>tenanturl = ''https://dev.identitynow.com'',
                       baseurl = ''https://dev.api.identitynow.com''\<rparr>"
    by (simp add: exampleConfig_def)
  have answer: "fetch exampleRuntime
        (patTokenRequest exampleRuntime
           \<lparr>tenanturl = ''https://dev.identitynow.com'',
            baseurl = ''https://dev.api.identitynow.com''\<rparr>
           \<lparr>patAccessToken = [], patAccessExpiry = None,
            patClientId = ''abc'', patClientSecret = ''xyz''\<rparr>)
       = Inr \<lparr>ok = False, status = 401, statusText = ''Unauthorized'', responseBody = []\<rparr>"
    by (simp add: exampleRuntime_def patTokenRequest_def)
  have before:
    "getSecureValue devPatWorld ''environments.pat.clientid'' ''dev'' = Inr ''abc''"
    "getSecureValue devPatWorld ''environments.pat.clientsecret'' ''dev'' = Inr ''xyz''"
    by (simp_all add: getSecureValue_def getSecureValue_try_def devPatWorld_eq exampleWorld_def
        path_eq_iff safe_keys)
  show ?thesis
    using refreshPATToken_keeps_credentials
            [of exampleRuntime devPatWorld "''dev''"
                "\<lparr>patAccessToken = [], patAccessExpiry = None,
                  patClientId = ''abc'', patClientSecret = ''xyz''\<rparr>"
                "exampleConfig\<lparr>authtype := pat, activeenvironment := ''dev''\<rparr>"
                "\<lparr>tenanturl = ''https://dev.identitynow.com'',
                  baseurl = ''https://dev.api.identitynow.com''\<rparr>"]
          devPatWorld_stored cfg env answer before
    by simp
qed


subsection \<open>Delegated-Auth Flow\<close>

lemma getStoredOAuthTokens_Some:
  assumes "getStoredOAuthTokens rt w environment = Inr (Some storedTokens)"
  shows "truthy (refreshToken storedTokens)" and "refreshExpiry storedTokens \<noteq> None"
proof -
  obtain a where a: "getSecureValue w ''environments.oauth.accesstoken'' environment = Inr a"
    using getSecureValue_Inr by blast
  obtain b where b: "getSecureValue w ''environments.oauth.expiry'' environment = Inr b"
    using getSecureValue_Inr by blast
  obtain c where c: "getSecureValue w ''environments.oauth.refreshtoken'' environment = Inr c"
    using getSecureValue_Inr by blast
  obtain d where d: "getSecureValue w ''environments.oauth.refreshexpiry'' environment = Inr d"
    using getSecureValue_Inr by blast
  from assms have "storedTokens =
      \<lparr>accessToken = a, accessExpiry = dateParse rt b,
       refreshToken = Some c, refreshExpiry = Some (dateParse rt d)\<rparr> \<and> c \<noteq> []"
    by (simp add: getStoredOAuthTokens_def andThen_def a b c d split: if_splits)
  then show "truthy (refreshToken storedTokens)" and "refreshExpiry storedTokens \<noteq> None"
    by simp_all
qed

lemma example_details:
  "getTokenDetails exampleRuntime token2020 =
     Inr \<lparr>expiry = DateValue (Some 1600000000000), claims = expClaims 1600000000\<rparr>"
  "getTokenDetails exampleRuntime token2023 =
     Inr \<lparr>expiry = DateValue (Some 1700000100000), claims = expClaims 1700000100\<rparr>"
  "getTokenDetails exampleRuntime token2030 =
     Inr \<lparr>expiry = DateValue (Some 1900000000000), claims = expClaims 1900000000\<rparr>"
  by (simp_all add: getTokenDetails_def andThen_def example_tokens expClaims_def newDate_def)

lemma stored_example:
  assumes "refreshToken tokenSet = Some r" and "r \<noteq> []" and "accessToken tokenSet \<noteq> []"
      and "accessExpiry tokenSet = Some a" and "refreshExpiry tokenSet = Some (Some e)"
      and "toISOString exampleRuntime a \<noteq> []" and "toISOString exampleRuntime e \<noteq> []"
  shows "getStoredOAuthTokens exampleRuntime
           (fst (storeOAuthTokens exampleRuntime exampleWorld ''prod'' tokenSet)) ''prod'' =
         Inr (Some \<lparr>accessToken = accessToken tokenSet,
                     accessExpiry = dateParse exampleRuntime (toISOString exampleRuntime a),
                     refreshToken = Some r,
                     refreshExpiry =
                       Some (dateParse exampleRuntime (toISOString exampleRuntime e))\<rparr>)"
  using assms
  by (simp add: storeOAuthTokens_def andThenW_def setSecureValue_def dateISO_def
      exampleWorld_def getStoredOAuthTokens_def andThen_def getSecureValue_def
      getSecureValue_try_def path_eq_iff safe_keys)

lemma example_dates:
  "toISOString exampleRuntime 1600000000000 = ''2020-09-13T12:26:40.000Z''"
  "toISOString exampleRuntime 1700000100000 = ''2023-11-14T22:15:00.000Z''"
  "toISOString exampleRuntime 1900000000000 = ''2030-03-17T17:46:40.000Z''"
  "dateParse exampleRuntime ''2020-09-13T12:26:40.000Z'' = Some 1600000000000"
  "dateParse exampleRuntime ''2023-11-14T22:15:00.000Z'' = Some 1700000100000"
  "dateParse exampleRuntime ''2030-03-17T17:46:40.000Z'' = Some 1900000000000"
  by (simp_all add: exampleRuntime_def)

lemma expiringWorld_stored:
  "getStoredOAuthTokens exampleRuntime expiringWorld ''prod'' =
     Inr (Some \<lparr>accessToken = token2023, accessExpiry = Some 1700000100000,
                 refreshToken = Some token2030, refreshExpiry = Some (Some 1900000000000)\<rparr>)"
  using stored_example [of expiringTokenSet token2030 1700000100000 1900000000000]
  by (simp add: expiringWorld_def expiringTokenSet_def example_dates token2030_def token2023_def)

lemma expiringWorld_clock: "clock expiringWorld = 1700000000000"
  by (simp add: expiringWorld_def storeOAuthTokens_def andThenW_def setSecureValue_def
      dateISO_def exampleWorld_def expiringTokenSet_def split: sum.splits)

text \<open>
  Claim C10. Let a delegated token set be stored for the environment, with a refresh
  token that is not expired at the time of the call. If the expiry of the access token
  is at most five minutes (300000 ms) after that time, \<open>validateOAuthTokens\<close> reports
  \<open>isValid = false\<close> and \<open>needsRefresh = true\<close>, also when the access token has not
  expired yet. (The clock reads a date at least five minutes before the last date a
  JavaScript \<open>Date\<close> can hold.)
\<close>

theorem validateOAuthTokens_early_refresh:
  assumes "getStoredOAuthTokens rt w environment = Inr (Some storedTokens)"
      and "getTokenDetails rt (the (refreshToken storedTokens)) = Inr refreshTokenDetails"
      and "\<not> lessThan (expiryNumber rt (expiry refreshTokenDetails)) (Some (clock w))"
      and "getTokenDetails rt (accessToken storedTokens) = Inr accessTokenDetails"
      and "expiryNumber rt (expiry accessTokenDetails) = Some t"
      and "t \<le> clock w + 5 * 60 * 1000"
      and "\<bar>clock w + 5 * 60 * 1000\<bar> \<le> 8640000000000000"
  shows "validateOAuthTokens rt w environment =
           \<lparr>isValid = False, needsRefresh = True, tokenDetails = Some accessTokenDetails\<rparr>"
  using assms getStoredOAuthTokens_Some [OF assms(1)]
  by (simp add: validateOAuthTokens_def validateOAuthTokens_try_def andThen_def Let_def
      newDate_def)

theorem validateOAuthTokens_early_refresh_witness:
  "getStoredOAuthTokens exampleRuntime expiringWorld ''prod'' =
     Inr (Some \<lparr>accessToken = token2023, accessExpiry = Some 1700000100000,
                 refreshToken = Some token2030, refreshExpiry = Some (Some 1900000000000)\<rparr>)
   \<and> clock expiringWorld = 1700000000000
   \<and> getTokenDetails exampleRuntime token2023 =
       Inr \<lparr>expiry = DateValue (Some 1700000100000), claims = expClaims 1700000100\<rparr>
   \<and> validateOAuthTokens exampleRuntime expiringWorld ''prod'' =
       \<lparr>isValid = False, needsRefresh = True,
        tokenDetails = Some \<lparr>expiry = DateValue (Some 1700000100000),
                              claims = expClaims 1700000100\<rparr>\<rparr>"
  using validateOAuthTokens_early_refresh
          [of exampleRuntime expiringWorld "''prod''"
              "\<lparr>accessToken = token2023, accessExpiry = Some 1700000100000,
                refreshToken = Some token2030, refreshExpiry = Some (Some 1900000000000)\<rparr>"
              "\<lparr>expiry = DateValue (Some 1900000000000), claims = expClaims 1900000000\<rparr>"
              "\<lparr>expiry = DateValue (Some 1700000100000), claims = expClaims 1700000100\<rparr>"
              1700000100000]
        expiringWorld_stored expiringWorld_clock example_details
  by simp


subsection \<open>Session Manager\<close>











end
